theory Spec2Isabelle
  imports Main "HOL-Library.Word"
begin

unbundle bit_operations_syntax

section \<open>T66 golden reference calibration (tools/mxt\_app/gr.c)\<close>

text \<open>
  A shallow embedding of \<^verbatim>\<open>gr.c\<close>. The C functions become HOL functions over an
  explicit \<open>world\<close>: the device's message queue, the wall clock, the results the
  transport gives, and a trace of every call the program makes to the outside
  (register writes, message reads, sleeps, output). \<^verbatim>\<open>uint8_t\<close> is \<open>8 word\<close>,
  \<^verbatim>\<open>uint16_t\<close> is \<open>16 word\<close>, \<^verbatim>\<open>int\<close> return codes and \<^verbatim>\<open>time_t\<close> are \<open>int\<close>,
  \<^verbatim>\<open>size_t\<close> and the object type numbers are \<open>nat\<close>.
\<close>

type_synonym u8 = "8 word"
type_synonym u16 = "16 word"

subsection \<open>The constants of gr.c\<close>

definition GR_CTRL :: u16 where
  "GR_CTRL = 0"

definition GR_ENABLE :: u8 where
  "GR_ENABLE = push_bit 0 1"

definition GR_RPTEN :: u8 where
  "GR_RPTEN = push_bit 1 1"

definition GR_FCALCMD_PRIME :: u8 where
  "GR_FCALCMD_PRIME = push_bit 2 1"

definition GR_FCALCMD_GENERATE :: u8 where
  "GR_FCALCMD_GENERATE = push_bit 3 1"

definition GR_FCALCMD_STORE :: u8 where
  "GR_FCALCMD_STORE = GR_FCALCMD_PRIME OR GR_FCALCMD_GENERATE"

definition GR_FCALCMD_MASK :: u8 where
  "GR_FCALCMD_MASK = GR_FCALCMD_STORE"

definition GR_STATE_BADSTOREDATA :: u8 where
  "GR_STATE_BADSTOREDATA = push_bit 0 1"

definition GR_STATE_IDLE :: u8 where
  "GR_STATE_IDLE = 0"

definition GR_STATE_PRIMED :: u8 where
  "GR_STATE_PRIMED = push_bit 1 1"

definition GR_STATE_GENERATED :: u8 where
  "GR_STATE_GENERATED = push_bit 2 1"

definition GR_STATE_FCALSTATE_MASK :: u8 where
  "GR_STATE_FCALSTATE_MASK = GR_STATE_PRIMED OR GR_STATE_GENERATED"

definition GR_STATE_FCALSEQERR :: u8 where
  "GR_STATE_FCALSEQERR = push_bit 3 1"

definition GR_STATE_FCALSEQTO :: u8 where
  "GR_STATE_FCALSEQTO = push_bit 4 1"

definition GR_STATE_FCALSEQDONE :: u8 where
  "GR_STATE_FCALSEQDONE = push_bit 5 1"

definition GR_STATE_FCALPASS :: u8 where
  "GR_STATE_FCALPASS = push_bit 6 1"

definition GR_STATE_FCALFAIL :: u8 where
  "GR_STATE_FCALFAIL = push_bit 7 1"

definition GR_TIMEOUT :: int where
  "GR_TIMEOUT = 30"

text \<open>
  Modelled from the spec: the object type numbers \<^verbatim>\<open>SPT_GOLDENREFERENCES_T66\<close> and
  \<^verbatim>\<open>GEN_COMMANDPROCESSOR_T6\<close> are declared in libmaxtouch, whose headers are
  missing. The spec calls them the calibration object and the command-processor
  object; the numbers are the ones the macro names carry.
\<close>

definition SPT_GOLDENREFERENCES_T66 :: nat where
  "SPT_GOLDENREFERENCES_T66 = 66"

definition GEN_COMMANDPROCESSOR_T6 :: nat where
  "GEN_COMMANDPROCESSOR_T6 = 6"

subsection \<open>Formatted output\<close>

text \<open>\<^verbatim>\<open>%02X\<close> of a byte: two upper-case hexadecimal digits.\<close>

definition hex_digit :: "nat \<Rightarrow> char" where
  "hex_digit d = ''0123456789ABCDEF'' ! (d mod 16)"

definition hex2 :: "u8 \<Rightarrow> string" where
  "hex2 b = [hex_digit (unat b div 16), hex_digit (unat b mod 16)]"

text \<open>The line \<^verbatim>\<open>mxt_gr_print_t6_state\<close> prints.\<close>

definition mxt_gr_print_t6_state :: "u8 \<Rightarrow> string" where
  "mxt_gr_print_t6_state state =
     ''T6 status: ''
     @ (if state AND 0x04 \<noteq> 0 then ''COMSERR '' else '''')
     @ (if state AND 0x08 \<noteq> 0 then ''CFGERR '' else '''')
     @ (if state AND 0x10 \<noteq> 0 then ''CAL '' else '''')
     @ (if state AND 0x20 \<noteq> 0 then ''SIGERR '' else '''')
     @ (if state AND 0x40 \<noteq> 0 then ''OFL '' else '''')
     @ (if state AND 0x80 \<noteq> 0 then ''RESET '' else '''')
     @ ''\<newline>''"

text \<open>The line \<^verbatim>\<open>mxt_gr_print_state\<close> prints: the nine \<^verbatim>\<open>%s\<close> arguments in the
  order of the source.\<close>

definition mxt_gr_print_state :: "u8 \<Rightarrow> string" where
  "mxt_gr_print_state state =
     ''T66 state: '' @ hex2 state @ '' ''
     @ (if state AND GR_STATE_FCALFAIL \<noteq> 0 then ''FCALFAIL '' else '''')
     @ (if state AND GR_STATE_FCALPASS \<noteq> 0 then ''FCALPASS '' else '''')
     @ (if state AND GR_STATE_FCALSEQDONE \<noteq> 0 then ''FCALSEQDONE '' else '''')
     @ (if state AND GR_STATE_FCALSEQTO \<noteq> 0 then ''FCALSEQTO '' else '''')
     @ (if state AND GR_STATE_FCALSEQERR \<noteq> 0 then ''FCALSEQERR '' else '''')
     @ (if state AND GR_STATE_FCALSTATE_MASK = GR_STATE_IDLE then ''Idle '' else '''')
     @ (if state AND GR_STATE_FCALSTATE_MASK = GR_STATE_GENERATED then ''Generated '' else '''')
     @ (if state AND GR_STATE_FCALSTATE_MASK = GR_STATE_PRIMED then ''Primed '' else '''')
     @ (if state AND GR_STATE_BADSTOREDATA \<noteq> 0 then ''BADSTOREDATA '' else '''')
     @ ''\<newline>''"

subsection \<open>The world outside gr.c\<close>

datatype log_level = LOG_VERBOSE | LOG_INFO

text \<open>What the program does to the outside, in the order it does it.\<close>

datatype event =
    MsgReset
  | WriteRegister u16 "u8 list"
  | GetMsgCount u16
  | GetMsgBytes "u8 list"
  | Sleep nat
  | Printf string
  | Log log_level string nat

text \<open>
  libmaxtouch and the C library are not part of the sources. What they hold and
  what they answer is the world, every field of it left open:
  \<^item> \<open>clock\<close>: the wall clock in whole time units;
  \<^item> \<open>queue\<close>: the messages queued on the inbound channel, oldest first, each the
    bytes one read delivers (the first byte is the report identity; a read that
    fails or finds nothing delivers no byte);
  \<^item> \<open>arriving\<close>: the messages that arrive during each coming \<^verbatim>\<open>sleep(1)\<close>;
  \<^item> \<open>on_write\<close>: the messages the device queues in answer to a register write;
  \<^item> \<open>write_rets\<close>: what the coming calls of \<^verbatim>\<open>mxt_write_register\<close> return
    (0 once the list is used up);
  \<^item> \<open>reset_ret\<close>: what \<^verbatim>\<open>mxt_msg_reset\<close> returns;
  \<^item> \<open>object_address\<close>: what \<^verbatim>\<open>get_object_address\<close> returns for an object type
    and instance, and \<open>OBJECT_NOT_FOUND\<close>: the value of that macro, which stands for
    an absent object;
  \<^item> \<open>report_id_to_type\<close>: the object type of a report identity byte;
  \<^item> \<open>stack\<close>: the indeterminate first contents of the poller's local \<^verbatim>\<open>buf[10]\<close>;
  \<^item> \<open>trace\<close>: the calls made so far.
\<close>

record world =
  clock :: int
  queue :: "u8 list list"
  arriving :: "u8 list list list"
  on_write :: "u16 \<Rightarrow> u8 list \<Rightarrow> u8 list list"
  write_rets :: "int list"
  reset_ret :: int
  object_address :: "nat \<Rightarrow> nat \<Rightarrow> u16"
  OBJECT_NOT_FOUND :: u16
  report_id_to_type :: "u8 \<Rightarrow> nat"
  stack :: "nat \<Rightarrow> u8"
  trace :: "event list"

definition emit :: "event \<Rightarrow> world \<Rightarrow> world" where
  "emit e w = w\<lparr>trace := trace w @ [e]\<rparr>"

text \<open>\<^verbatim>\<open>printf\<close> with its arguments formatted, and the \<^verbatim>\<open>LOG\<close> macro with its format
  and its one argument: both only add to the trace.\<close>

definition printf :: "string \<Rightarrow> world \<Rightarrow> world" where
  "printf s w = emit (Printf s) w"

definition LOG :: "log_level \<Rightarrow> string \<Rightarrow> nat \<Rightarrow> world \<Rightarrow> world" where
  "LOG level fmt arg w = emit (Log level fmt arg) w"

text \<open>Modelled from the spec: \<^verbatim>\<open>time(NULL)\<close> of the C library is missing; the spec
  has the poller check the elapsed wall-clock time. It reads the clock.\<close>

definition time :: "world \<Rightarrow> int" where
  "time w = clock w"

text \<open>Modelled from the spec: \<^verbatim>\<open>sleep\<close> of the C library is missing; the spec has the
  poller sleep a fixed interval of 1 time unit between drains, during which device
  messages arrive. The clock advances by the time slept, and by nothing else.\<close>

definition sleep :: "nat \<Rightarrow> world \<Rightarrow> world" where
  "sleep n w =
     emit (Sleep n)
       (w\<lparr>clock := clock w + int n,
          queue := queue w @ concat (take n (arriving w)),
          arriving := drop n (arriving w)\<rparr>)"

text \<open>Modelled from the spec: \<^verbatim>\<open>mxt_msg_reset\<close> of libmaxtouch is missing; the spec's
  resetMessageState clears any pending message backlog before a run starts.\<close>

definition mxt_msg_reset :: "world \<Rightarrow> int \<times> world" where
  "mxt_msg_reset w = (reset_ret w, emit MsgReset (w\<lparr>queue := []\<rparr>))"

text \<open>Modelled from the spec: \<^verbatim>\<open>get_object_address\<close> of libmaxtouch is missing; the
  spec's resolveObjectAddress locates an object's register base address, or gives
  NotFound.\<close>

definition get_object_address :: "nat \<Rightarrow> nat \<Rightarrow> world \<Rightarrow> u16" where
  "get_object_address object_type instance w = object_address w object_type instance"

text \<open>Modelled from the spec: \<^verbatim>\<open>mxt_write_register\<close> of libmaxtouch is missing; the
  spec's writeRegister writes raw bytes to a device register address, or fails. A
  negative result is a failure; after a write that did not fail the device queues
  its answer.\<close>

definition mxt_write_register :: "u8 list \<Rightarrow> u16 \<Rightarrow> world \<Rightarrow> int \<times> world" where
  "mxt_write_register bytes addr w =
     (let ret = (case write_rets w of [] \<Rightarrow> 0 | r # _ \<Rightarrow> r);
          w1 = emit (WriteRegister addr bytes) (w\<lparr>write_rets := tl (write_rets w)\<rparr>)
      in if ret < 0 then (ret, w1)
         else (ret, w1\<lparr>queue := queue w1 @ on_write w1 addr bytes\<rparr>))"

text \<open>Modelled from the spec: \<^verbatim>\<open>mxt_get_msg_count\<close> of libmaxtouch is missing; the
  spec's drainMessages returns whatever is currently queued. The count is the
  number of queued messages, as the \<^verbatim>\<open>uint16_t\<close> the source stores it in.\<close>

definition mxt_get_msg_count :: "world \<Rightarrow> u16 \<times> world" where
  "mxt_get_msg_count w =
     (let count = (word_of_nat (length (queue w)) :: u16)
      in (count, emit (GetMsgCount count) w))"

text \<open>Modelled from the spec: \<^verbatim>\<open>mxt_get_msg_bytes\<close> of libmaxtouch is missing; the
  spec's messages are of up to 10 bytes each, the first byte the report identity.
  \<^verbatim>\<open>mxt_get_msg_bytes(buf, sizeof(buf))\<close> takes the oldest queued message: its bytes,
  at most the 10 the buffer holds, overwrite the front of \<open>buf\<close>, and the result is
  their number, the \<^verbatim>\<open>size_t len\<close> of the source.\<close>

definition mxt_get_msg_bytes :: "(nat \<Rightarrow> u8) \<Rightarrow> world \<Rightarrow> nat \<times> (nat \<Rightarrow> u8) \<times> world" where
  "mxt_get_msg_bytes buf w =
     (case queue w of
        [] \<Rightarrow> (0, buf, emit (GetMsgBytes []) w)
      | m # q \<Rightarrow>
          (let bytes = take 10 m
           in (length bytes,
               (\<lambda>i. if i < length bytes then bytes ! i else buf i),
               emit (GetMsgBytes bytes) (w\<lparr>queue := q\<rparr>))))"

subsection \<open>The poller: mxt\_gr\_get\_status\<close>

text \<open>The loop that prints the bytes of a T66 message from index 1 on.\<close>

definition print_bytes :: "nat \<Rightarrow> (nat \<Rightarrow> u8) \<Rightarrow> world \<Rightarrow> world" where
  "print_bytes len buf w = foldl (\<lambda>w' byte. printf (hex2 (buf byte) @ '' '') w') w [1..<len]"

text \<open>
  The \<^verbatim>\<open>for (i = 0; i < count; i++)\<close> loop of the poller, by the number of rounds
  left. It gives \<open>Some state\<close> when a T66 message made the function return, and
  \<open>None\<close> when the loop ran to its end.
\<close>

fun for_messages :: "nat \<Rightarrow> (nat \<Rightarrow> u8) \<Rightarrow> world \<Rightarrow> u8 option \<times> (nat \<Rightarrow> u8) \<times> world" where
  "for_messages 0 buf w = (None, buf, w)"
| "for_messages (Suc n) buf w =
     (case mxt_get_msg_bytes buf w of (len, buf1, w1) \<Rightarrow>
        if len > 0 then
          (let object_type = report_id_to_type w1 (buf1 0);
               w2 = LOG LOG_VERBOSE ''Received message from T%u'' object_type w1
           in if object_type = SPT_GOLDENREFERENCES_T66 then
                (let w3 = printf ''\<newline>'' (print_bytes len buf1 w2);
                     state = buf1 1
                 in (Some state, buf1, printf (mxt_gr_print_state state) w3))
              else if object_type = GEN_COMMANDPROCESSOR_T6 then
                for_messages n buf1 (printf (mxt_gr_print_t6_state (buf1 1)) w2)
              else for_messages n buf1 w2)
        else for_messages n buf1 w1)"

text \<open>
  The source keeps the result of the read in \<^verbatim>\<open>size_t len\<close> (lines 108 and 126) and
  tests it with \<^verbatim>\<open>len > 0\<close> only. \<open>size_t\<close> is the value an \<^verbatim>\<open>int\<close> result has once
  stored there, for a \<^verbatim>\<open>size_t\<close> of 64 bits.
\<close>

definition size_t :: "int \<Rightarrow> int" where
  "size_t r = r mod 2 ^ 64"

text \<open>
  One round of the \<^verbatim>\<open>for\<close> loop from the assignment to \<^verbatim>\<open>len\<close> on (lines 126 to 150),
  with the result \<open>ret\<close> of the read as the library returned it, \<open>buf\<close> and \<open>w\<close> the
  buffer and the world the read left. The result is \<open>Some (Some state, _)\<close> when the
  function returns from a T66 message, \<open>Some (None, _)\<close> when the loop goes on, and
  \<open>None\<close> when the loop that prints the bytes \<^verbatim>\<open>buf[1]\<close> to \<^verbatim>\<open>buf[len - 1]\<close> leaves the
  10 bytes of \<^verbatim>\<open>buf\<close>.
\<close>

definition message_round :: "int \<Rightarrow> (nat \<Rightarrow> u8) \<Rightarrow> world \<Rightarrow> (u8 option \<times> world) option" where
  "message_round ret buf w =
     (let len = size_t ret
      in if len > 0 then
           (let object_type = report_id_to_type w (buf 0);
                w2 = LOG LOG_VERBOSE ''Received message from T%u'' object_type w
            in if object_type = SPT_GOLDENREFERENCES_T66 then
                 (if len \<le> 10 then
                    (let w3 = printf ''\<newline>'' (print_bytes (nat len) buf w2);
                         state = buf 1
                     in Some (Some state, printf (mxt_gr_print_state state) w3))
                  else None)
               else if object_type = GEN_COMMANDPROCESSOR_T6 then
                 Some (None, printf (mxt_gr_print_t6_state (buf 1)) w2)
               else Some (None, w2))
         else Some (None, w))"

text \<open>
  One pass of the body of \<^verbatim>\<open>while (true)\<close> after the time check: ask for the
  number of queued messages, and run the \<^verbatim>\<open>for\<close> loop when it is positive.
  \<^verbatim>\<open>count\<close> is a \<^verbatim>\<open>uint16_t\<close>.
\<close>

definition drain_messages :: "(nat \<Rightarrow> u8) \<Rightarrow> world \<Rightarrow> u8 option \<times> (nat \<Rightarrow> u8) \<times> world" where
  "drain_messages buf w =
     (case mxt_get_msg_count w of (count, w1) \<Rightarrow>
        if count > 0 then for_messages (unat count) buf w1 else (None, buf, w1))"

text \<open>None of this moves the clock.\<close>

lemma clock_emit [simp]: "clock (emit e w) = clock w"
  by (simp add: emit_def)

lemma clock_printf [simp]: "clock (printf s w) = clock w"
  by (simp add: printf_def)

lemma clock_LOG [simp]: "clock (LOG l f a w) = clock w"
  by (simp add: LOG_def)

lemma clock_sleep [simp]: "clock (sleep n w) = clock w + int n"
  by (simp add: sleep_def)

lemma clock_print_bytes [simp]: "clock (print_bytes len buf w) = clock w"
proof -
  have "clock (foldl (\<lambda>w' byte. printf (hex2 (buf byte) @ '' '') w') w xs) = clock w" for xs
    by (induction xs arbitrary: w) simp_all
  then show ?thesis by (simp add: print_bytes_def)
qed

lemma clock_mxt_get_msg_bytes:
  "mxt_get_msg_bytes buf w = (len, buf1, w1) \<Longrightarrow> clock w1 = clock w"
  by (auto simp: mxt_get_msg_bytes_def Let_def split: list.splits)

lemma clock_for_messages:
  "for_messages n buf w = (r, buf', w') \<Longrightarrow> clock w' = clock w"
proof (induction n arbitrary: buf w)
  case 0
  then show ?case by simp
next
  case (Suc n)
  obtain len buf1 w1 where rd: "mxt_get_msg_bytes buf w = (len, buf1, w1)"
    by (cases "mxt_get_msg_bytes buf w") auto
  have c1: "clock w1 = clock w" using rd by (rule clock_mxt_get_msg_bytes)
  show ?case
    using Suc.prems Suc.IH c1 rd
    by (auto simp: Let_def split: if_splits)
qed

lemma clock_drain_messages:
  "drain_messages buf w = (r, buf', w') \<Longrightarrow> clock w' = clock w"
  by (auto simp: drain_messages_def mxt_get_msg_count_def Let_def
           dest: clock_for_messages split: if_splits)

text \<open>
  The \<^verbatim>\<open>while (true)\<close> loop of \<^verbatim>\<open>mxt_gr_get_status\<close>. The result is \<open>Inl r\<close> when the
  function returns \<open>r < 0\<close> and leaves \<^verbatim>\<open>*state\<close> alone, and \<open>Inr s\<close> when it returns
  0 with \<^verbatim>\<open>*state = s\<close>. The loop ends because every pass that does not return
  sleeps, and the clock then passes the bound.
\<close>

function gr_status_loop :: "int \<Rightarrow> int \<Rightarrow> (nat \<Rightarrow> u8) \<Rightarrow> world \<Rightarrow> (int + u8) \<times> world" where
  "gr_status_loop start_time timeout_seconds buf w =
     (let now = time w
      in if now - start_time > timeout_seconds then
           (Inl (- 1), printf ''Timeout\<newline>'' w)
         else
           (case drain_messages buf w of
              (Some state, buf', w2) \<Rightarrow> (Inr state, w2)
            | (None, buf', w2) \<Rightarrow>
                gr_status_loop start_time timeout_seconds buf' (sleep 1 w2)))"
  by pat_completeness auto
termination
proof (relation "measure (\<lambda>(start_time, timeout_seconds, buf, w).
                   nat (timeout_seconds + 1 - (clock w - start_time)))")
  show "wf (measure (\<lambda>(start_time, timeout_seconds, buf, w).
                   nat (timeout_seconds + 1 - (clock w - start_time))))"
    by simp
next
  fix start_time timeout_seconds now :: int and buf buf' :: "nat \<Rightarrow> u8"
    and w w2 :: world and r y
  assume now: "now = time w"
    and live: "\<not> timeout_seconds < now - start_time"
    and body: "(r, y) = drain_messages buf w"
    and y: "(buf', w2) = y"
  have "clock w2 = clock w"
    using body y clock_drain_messages [of buf w r buf' w2] by simp
  with now live
  show "((start_time, timeout_seconds, buf', sleep 1 w2), (start_time, timeout_seconds, buf, w))
        \<in> measure (\<lambda>(start_time, timeout_seconds, buf, w).
                   nat (timeout_seconds + 1 - (clock w - start_time)))"
    by (simp add: time_def)
qed

definition mxt_gr_get_status :: "int \<Rightarrow> world \<Rightarrow> (int + u8) \<times> world" where
  "mxt_gr_get_status timeout_seconds w =
     (let start_time = time w
      in gr_status_loop start_time timeout_seconds (stack w) w)"

subsection \<open>The sequencer: mxt\_gr\_run\_command\<close>

text \<open>
  The command byte is the caller's with the enable and report-enable bits OR-ed on;
  a negative result of the write, or of the poller (its \<open>Inl\<close>), is returned as it
  is; otherwise \<^verbatim>\<open>actual_state\<close> is the poller's state and the check decides.
\<close>

definition mxt_gr_run_command :: "u16 \<Rightarrow> u8 \<Rightarrow> u8 \<Rightarrow> u8 \<Rightarrow> world \<Rightarrow> int \<times> world" where
  "mxt_gr_run_command addr cmd0 wanted_fcal_state wanted_statebit w =
     (let cmd = cmd0 OR (GR_ENABLE OR GR_RPTEN);
          w0 = LOG LOG_INFO ''Writing %u to ctrl register'' (unat cmd) w
      in case mxt_write_register [cmd] (addr + GR_CTRL) w0 of (ret, w1) \<Rightarrow>
           if ret < 0 then (ret, w1)
           else
             (case mxt_gr_get_status GR_TIMEOUT w1 of
                (Inl ret, w2) \<Rightarrow> (ret, w2)
              | (Inr actual_state, w2) \<Rightarrow>
                  if actual_state AND GR_STATE_FCALSTATE_MASK = wanted_fcal_state
                     \<and> actual_state AND wanted_statebit \<noteq> 0
                  then (0, w2)
                  else (- 1, printf ''Failed to enter correct state\<newline>'' w2)))"

subsection \<open>The procedure: mxt\_store\_golden\_refs\<close>

definition mxt_store_golden_refs :: "world \<Rightarrow> int \<times> world" where
  "mxt_store_golden_refs w =
     (case mxt_msg_reset w of (ret, w1) \<Rightarrow>
        if ret < 0 then (ret, w1)
        else
          (let addr = get_object_address SPT_GOLDENREFERENCES_T66 0 w1
           in if addr = OBJECT_NOT_FOUND w1 then (- 1, w1)
              else
                (case mxt_gr_run_command addr GR_FCALCMD_PRIME
                        GR_STATE_PRIMED GR_STATE_PRIMED (printf ''Priming\<newline>'' w1) of
                   (ret, w2) \<Rightarrow>
                     if ret < 0 then (ret, w2)
                     else
                       (case mxt_gr_run_command addr GR_FCALCMD_GENERATE
                               GR_STATE_GENERATED GR_STATE_FCALPASS
                               (printf ''Generating\<newline>'' w2) of
                          (ret, w3) \<Rightarrow>
                            if ret < 0 then (ret, w3)
                            else
                              (case mxt_gr_run_command addr GR_FCALCMD_STORE
                                      GR_STATE_IDLE GR_STATE_FCALSEQDONE
                                      (printf ''Storing\<newline>'' w3) of
                                 (ret, w4) \<Rightarrow>
                                   if ret < 0 then (ret, w4)
                                   else (0, printf ''Done\<newline>'' w4))))))"

subsection \<open>What is observed of a run\<close>

text \<open>The register writes issued so far, in order: address and bytes.\<close>

definition register_writes :: "world \<Rightarrow> (u16 \<times> u8 list) list" where
  "register_writes w =
     concat (map (\<lambda>e. case e of WriteRegister a bs \<Rightarrow> [(a, bs)] | _ \<Rightarrow> []) (trace w))"

text \<open>How many times the poller has asked for the number of queued messages.\<close>

definition polls :: "world \<Rightarrow> nat" where
  "polls w = length (filter (\<lambda>e. case e of GetMsgCount _ \<Rightarrow> True | _ \<Rightarrow> False) (trace w))"

text \<open>What the calls of \<^verbatim>\<open>mxt_get_msg_bytes\<close> have delivered so far, in order.\<close>

definition reads :: "world \<Rightarrow> u8 list list" where
  "reads w = concat (map (\<lambda>e. case e of GetMsgBytes bs \<Rightarrow> [bs] | _ \<Rightarrow> []) (trace w))"

text \<open>
  A message the poller takes for one of the calibration object: the read delivers
  at least one byte (\<^verbatim>\<open>len > 0\<close>) and the first byte is a report identity of T66.
\<close>

definition is_calibration_message :: "world \<Rightarrow> u8 list \<Rightarrow> bool" where
  "is_calibration_message w m =
     (m \<noteq> [] \<and> report_id_to_type w (hd m) = SPT_GOLDENREFERENCES_T66)"

text \<open>
  The messages a poll with bound \<open>timeout_seconds\<close> can read: those queued when it
  starts and those arriving during its first \<open>timeout_seconds\<close> sleeps (what
  arrives during the last sleep is never read: the next check is past the bound).
\<close>

definition received :: "int \<Rightarrow> world \<Rightarrow> u8 list list" where
  "received timeout_seconds w = queue w @ concat (take (nat timeout_seconds) (arriving w))"

text \<open>
  Two stages of \<^verbatim>\<open>mxt_gr_run_command\<close>, named to state what happens between them:
  the command written (the source's lines 166 to 169), and the poll that follows the
  write (line 173).
\<close>

definition write_command :: "u16 \<Rightarrow> u8 \<Rightarrow> world \<Rightarrow> int \<times> world" where
  "write_command addr cmd0 w =
     (let cmd = cmd0 OR (GR_ENABLE OR GR_RPTEN)
      in mxt_write_register [cmd] (addr + GR_CTRL)
           (LOG LOG_INFO ''Writing %u to ctrl register'' (unat cmd) w))"

definition answer_to_command :: "u16 \<Rightarrow> u8 \<Rightarrow> world \<Rightarrow> (int + u8) \<times> world" where
  "answer_to_command addr cmd0 w = mxt_gr_get_status GR_TIMEOUT (snd (write_command addr cmd0 w))"

text \<open>
  The three steps of \<^verbatim>\<open>mxt_store_golden_refs\<close>, each the call of the sequencer as the
  source makes it, in the world the step before leaves.
\<close>

definition prime_phase :: "world \<Rightarrow> int \<times> world" where
  "prime_phase w =
     (let w1 = snd (mxt_msg_reset w)
      in mxt_gr_run_command (get_object_address SPT_GOLDENREFERENCES_T66 0 w1)
           GR_FCALCMD_PRIME GR_STATE_PRIMED GR_STATE_PRIMED (printf ''Priming\<newline>'' w1))"

definition generate_phase :: "world \<Rightarrow> int \<times> world" where
  "generate_phase w =
     mxt_gr_run_command (get_object_address SPT_GOLDENREFERENCES_T66 0 (snd (mxt_msg_reset w)))
       GR_FCALCMD_GENERATE GR_STATE_GENERATED GR_STATE_FCALPASS
       (printf ''Generating\<newline>'' (snd (prime_phase w)))"

definition store_phase :: "world \<Rightarrow> int \<times> world" where
  "store_phase w =
     mxt_gr_run_command (get_object_address SPT_GOLDENREFERENCES_T66 0 (snd (mxt_msg_reset w)))
       GR_FCALCMD_STORE GR_STATE_IDLE GR_STATE_FCALSEQDONE
       (printf ''Storing\<newline>'' (snd (generate_phase w)))"

subsection \<open>The status byte as the spec describes it\<close>

text \<open>
  The source has no decoder of its own: it tests the bits where it needs them. This
  one follows the words of the spec (section 4.1: bit 0 badStoredData, bits 1 and 2
  the phase with 00 Idle, 01 Primed, 10 Generated, 11 reserved, bit 3 sequenceError,
  bit 4 sequenceTimeout, bit 5 sequenceDone, bit 6 fcalPass, bit 7 fcalFail), to be
  compared with the tests of the source.
\<close>

datatype phase = Idle | Primed | Generated | Reserved

record CalibrationState =
  badStoredData :: bool
  phase :: phase
  sequenceError :: bool
  sequenceTimeout :: bool
  sequenceDone :: bool
  fcalPass :: bool
  fcalFail :: bool

definition decodeCalibrationState :: "u8 \<Rightarrow> CalibrationState" where
  "decodeCalibrationState b =
     \<lparr>badStoredData = bit b 0,
      phase = (if bit b 2 then (if bit b 1 then Reserved else Generated)
               else (if bit b 1 then Primed else Idle)),
      sequenceError = bit b 3,
      sequenceTimeout = bit b 4,
      sequenceDone = bit b 5,
      fcalPass = bit b 6,
      fcalFail = bit b 7\<rparr>"

subsection \<open>Worlds for concrete runs\<close>

text \<open>
  A bench device: the calibration object T66 sits at address \<open>0x0123\<close> and reports
  under identity 5, the command processor T6 under identity 3; \<open>answers\<close> are the
  messages the device queues on a register write, \<open>backlog\<close> those already queued and
  \<open>later\<close> those arriving during the coming sleeps.
\<close>

definition bench :: "(u16 \<Rightarrow> u8 list \<Rightarrow> u8 list list) \<Rightarrow> u8 list list \<Rightarrow> u8 list list list \<Rightarrow> world" where
  "bench answers backlog later =
     \<lparr>clock = 0, queue = backlog, arriving = later, on_write = answers,
      write_rets = [], reset_ret = 0,
      object_address = (\<lambda>t i. if t = 66 \<and> i = 0 then 0x0123 else 0),
      OBJECT_NOT_FOUND = 0,
      report_id_to_type = (\<lambda>b. if b = 5 then 66 else if b = 3 then 6 else 0),
      stack = (\<lambda>_. 0), trace = []\<rparr>"

text \<open>A device that answers the three commands with one T66 message each, of the
  given status bytes, and one that answers nothing.\<close>

definition answering :: "u8 \<Rightarrow> u8 \<Rightarrow> u8 \<Rightarrow> u16 \<Rightarrow> u8 list \<Rightarrow> u8 list list" where
  "answering primed generated stored addr bytes =
     (if bytes = [0x07] then [[5, primed]]
      else if bytes = [0x0B] then [[5, generated]]
      else if bytes = [0x0F] then [[5, stored]]
      else [])"

definition silent :: "u16 \<Rightarrow> u8 list \<Rightarrow> u8 list list" where
  "silent addr bytes = []"

text \<open>A bench where only command-processor and unknown messages are queued; more
  arrive during the first sleep, and a T66 message during the second.\<close>

definition late :: world where
  "late = bench silent [[3, 0x10], [9, 9]] [[[3, 0x80]], [[5, 0x02]]]"

text \<open>The buffer and the world after the poller's \<^verbatim>\<open>for\<close> loop has read and handled
  one command-processor message, \<open>03 10\<close>.\<close>

definition after_t6 :: "(nat \<Rightarrow> u8) \<times> world" where
  "after_t6 = snd (for_messages 1 (\<lambda>_. 0) (bench silent [[3, 0x10]] []))"


text \<open>A bench whose device answers Generate with \<open>0x44\<close> (Generated, fcalPass).\<close>

definition passing :: world where
  "passing = bench (answering 0x02 0x44 0x20) [[9, 9]] []"

text \<open>A bench whose device answers nothing at once: a command-processor message
  arrives during the first sleep, nothing during the second, and the T66 message
  \<open>05 84\<close> (Generated, fcalFail) during the third.\<close>

definition slow_rejecting :: world where
  "slow_rejecting = bench silent [[9, 9]] [[[3, 0x10]], [], [[5, 0x84]]]"

text \<open>The scenarios of the spec's section 8: the device answers Prime with \<open>0x02\<close>,
  Generate with \<open>0x42\<close> or with \<open>0x82\<close>, and Store with \<open>0x20\<close>.\<close>

definition spec_scenario :: world where
  "spec_scenario = bench (answering 0x02 0x42 0x20) [] []"

definition spec_failure_scenario :: world where
  "spec_failure_scenario = bench (answering 0x02 0x82 0x20) [] []"

text \<open>A device without the calibration object.\<close>

definition absent :: world where
  "absent = (bench silent [[9, 9]] [])\<lparr>object_address := (\<lambda>t i. 0)\<rparr>"

section \<open>Properties\<close>

subsection \<open>What each call leaves alone\<close>


lemma emit_fields [simp]:
  "queue (emit e w) = queue w" "arriving (emit e w) = arriving w"
  "on_write (emit e w) = on_write w" "write_rets (emit e w) = write_rets w"
  "report_id_to_type (emit e w) = report_id_to_type w"
  "trace (emit e w) = trace w @ [e]"
  by (simp_all add: emit_def)

lemma printf_fields [simp]:
  "queue (printf s w) = queue w" "arriving (printf s w) = arriving w"
  "on_write (printf s w) = on_write w" "write_rets (printf s w) = write_rets w"
  "report_id_to_type (printf s w) = report_id_to_type w"
  "trace (printf s w) = trace w @ [Printf s]"
  by (simp_all add: printf_def)

lemma LOG_fields [simp]:
  "queue (LOG l f a w) = queue w" "arriving (LOG l f a w) = arriving w"
  "on_write (LOG l f a w) = on_write w" "write_rets (LOG l f a w) = write_rets w"
  "report_id_to_type (LOG l f a w) = report_id_to_type w"
  "trace (LOG l f a w) = trace w @ [Log l f a]"
  by (simp_all add: LOG_def)

lemma sleep_fields [simp]:
  "queue (sleep n w) = queue w @ concat (take n (arriving w))"
  "arriving (sleep n w) = drop n (arriving w)"
  "on_write (sleep n w) = on_write w" "write_rets (sleep n w) = write_rets w"
  "report_id_to_type (sleep n w) = report_id_to_type w"
  "trace (sleep n w) = trace w @ [Sleep n]"
  by (simp_all add: sleep_def)

lemma print_bytes_fields [simp]:
  "queue (print_bytes len buf w) = queue w" "arriving (print_bytes len buf w) = arriving w"
  "on_write (print_bytes len buf w) = on_write w" "write_rets (print_bytes len buf w) = write_rets w"
  "report_id_to_type (print_bytes len buf w) = report_id_to_type w"
  "trace (print_bytes len buf w) = trace w @ map (\<lambda>byte. Printf (hex2 (buf byte) @ '' '')) [1..<len]"
proof -
  have "queue (foldl (\<lambda>w' byte. printf (hex2 (buf byte) @ '' '') w') w xs) = queue w
      \<and> arriving (foldl (\<lambda>w' byte. printf (hex2 (buf byte) @ '' '') w') w xs) = arriving w
      \<and> on_write (foldl (\<lambda>w' byte. printf (hex2 (buf byte) @ '' '') w') w xs) = on_write w
      \<and> write_rets (foldl (\<lambda>w' byte. printf (hex2 (buf byte) @ '' '') w') w xs) = write_rets w
      \<and> report_id_to_type (foldl (\<lambda>w' byte. printf (hex2 (buf byte) @ '' '') w') w xs) = report_id_to_type w
      \<and> trace (foldl (\<lambda>w' byte. printf (hex2 (buf byte) @ '' '') w') w xs)
          = trace w @ map (\<lambda>byte. Printf (hex2 (buf byte) @ '' '')) xs" for xs
    by (induction xs arbitrary: w) simp_all
  then show "queue (print_bytes len buf w) = queue w" "arriving (print_bytes len buf w) = arriving w"
  "on_write (print_bytes len buf w) = on_write w" "write_rets (print_bytes len buf w) = write_rets w"
  "report_id_to_type (print_bytes len buf w) = report_id_to_type w"
  "trace (print_bytes len buf w) = trace w @ map (\<lambda>byte. Printf (hex2 (buf byte) @ '' '')) [1..<len]"
    by (simp_all add: print_bytes_def)
qed

lemma register_writes_simps [simp]:
  "register_writes (emit e w) = register_writes w @ (case e of WriteRegister a bs \<Rightarrow> [(a, bs)] | _ \<Rightarrow> [])"
  "register_writes (printf s w) = register_writes w"
  "register_writes (LOG l f a w) = register_writes w"
  "register_writes (sleep n w) = register_writes w"
  "register_writes (print_bytes len buf w) = register_writes w"
  "register_writes (w\<lparr>queue := q\<rparr>) = register_writes w"
  by (simp_all add: register_writes_def)

lemma polls_simps [simp]:
  "polls (emit e w) = polls w + (case e of GetMsgCount _ \<Rightarrow> 1 | _ \<Rightarrow> 0)"
  "polls (printf s w) = polls w"
  "polls (LOG l f a w) = polls w"
  "polls (sleep n w) = polls w"
  "polls (print_bytes len buf w) = polls w"
  "polls (w\<lparr>queue := q\<rparr>) = polls w"
  by (simp_all add: polls_def split: event.splits)

lemma reads_simps [simp]:
  "reads (emit e w) = reads w @ (case e of GetMsgBytes bs \<Rightarrow> [bs] | _ \<Rightarrow> [])"
  "reads (printf s w) = reads w"
  "reads (LOG l f a w) = reads w"
  "reads (sleep n w) = reads w"
  "reads (print_bytes len buf w) = reads w"
  "reads (w\<lparr>queue := q\<rparr>) = reads w"
  by (simp_all add: reads_def)

lemma mxt_get_msg_bytes_Nil:
  "queue w = [] \<Longrightarrow> mxt_get_msg_bytes buf w = (0, buf, emit (GetMsgBytes []) w)"
  by (simp add: mxt_get_msg_bytes_def)

lemma mxt_get_msg_bytes_Cons:
  "queue w = m # q \<Longrightarrow>
   mxt_get_msg_bytes buf w =
     (length (take 10 m), (\<lambda>i. if i < length (take 10 m) then take 10 m ! i else buf i),
      emit (GetMsgBytes (take 10 m)) (w\<lparr>queue := q\<rparr>))"
  by (simp add: mxt_get_msg_bytes_def Let_def)

lemma for_messages_frame:
  "for_messages n buf w = (r, buf', w') \<Longrightarrow>
     arriving w' = arriving w \<and> on_write w' = on_write w \<and> write_rets w' = write_rets w
     \<and> report_id_to_type w' = report_id_to_type w
     \<and> register_writes w' = register_writes w \<and> polls w' = polls w
     \<and> (r = None \<longrightarrow> queue w' = drop n (queue w))"
proof (induction n arbitrary: buf w)
  case 0
  then show ?case by simp
next
  case (Suc n)
  show ?case
  proof (cases "queue w")
    case Nil
    note rd = mxt_get_msg_bytes_Nil [OF Nil, of buf]
    with Suc.prems have "for_messages n buf (emit (GetMsgBytes []) w) = (r, buf', w')"
      by simp
    from Suc.IH [OF this] show ?thesis using Nil by simp
  next
    case (Cons m q)
    note rd = mxt_get_msg_bytes_Cons [OF Cons, of buf]
    let ?w1 = "emit (GetMsgBytes (take 10 m)) (w\<lparr>queue := q\<rparr>)"
    let ?buf1 = "\<lambda>i. if i < length (take 10 m) then take 10 m ! i else buf i"
    let ?w2 = "LOG LOG_VERBOSE ''Received message from T%u'' (report_id_to_type ?w1 (?buf1 0)) ?w1"
    consider (empty) "m = []"
      | (t66) "m \<noteq> []" "report_id_to_type ?w1 (?buf1 0) = SPT_GOLDENREFERENCES_T66"
      | (t6) "m \<noteq> []" "report_id_to_type ?w1 (?buf1 0) \<noteq> SPT_GOLDENREFERENCES_T66"
             "report_id_to_type ?w1 (?buf1 0) = GEN_COMMANDPROCESSOR_T6"
      | (other) "m \<noteq> []" "report_id_to_type ?w1 (?buf1 0) \<noteq> SPT_GOLDENREFERENCES_T66"
             "report_id_to_type ?w1 (?buf1 0) \<noteq> GEN_COMMANDPROCESSOR_T6"
      by blast
    then show ?thesis
    proof cases
      case empty
      with Suc.prems rd have "for_messages n ?buf1 ?w1 = (r, buf', w')"
        by simp
      from Suc.IH [OF this] show ?thesis using Cons by simp
    next
      case t66
      with Suc.prems rd show ?thesis
        by (auto simp: Let_def)
    next
      case t6
      with Suc.prems rd
      have "for_messages n ?buf1 (printf (mxt_gr_print_t6_state (?buf1 1)) ?w2) = (r, buf', w')"
        by (simp add: Let_def)
      from Suc.IH [OF this] show ?thesis using Cons by simp
    next
      case other
      with Suc.prems rd have "for_messages n ?buf1 ?w2 = (r, buf', w')"
        by (simp add: Let_def)
      from Suc.IH [OF this] show ?thesis using Cons by simp
    qed
  qed
qed

subsection \<open>The for loop over the queued messages\<close>

lemma is_calibration_message_cong:
  "report_id_to_type w' = report_id_to_type w \<Longrightarrow>
   is_calibration_message w' m = is_calibration_message w m"
  by (simp add: is_calibration_message_def)

lemma for_messages_none:
  "\<forall>m\<in>set (take n (queue w)). \<not> is_calibration_message w m \<Longrightarrow>
   fst (for_messages n buf w) = None"
proof (induction n arbitrary: buf w)
  case 0
  show ?case by simp
next
  case (Suc n)
  show ?case
  proof (cases "queue w")
    case Nil
    note rd = mxt_get_msg_bytes_Nil [OF Nil, of buf]
    have "fst (for_messages n buf (emit (GetMsgBytes []) w)) = None"
      by (rule Suc.IH) (simp add: Nil)
    with rd show ?thesis by simp
  next
    case (Cons m q)
    note rd = mxt_get_msg_bytes_Cons [OF Cons, of buf]
    from Suc.prems Cons have nm: "\<not> is_calibration_message w m"
      and rest: "\<forall>m\<in>set (take n q). \<not> is_calibration_message w m"
      by simp_all
    have IH: "fst (for_messages n b w') = None"
      if "queue w' = q" "report_id_to_type w' = report_id_to_type w" for b w'
      by (rule Suc.IH) (use that rest in \<open>simp add: is_calibration_message_def\<close>)
    show ?thesis
    proof (cases "m = []")
      case True
      with rd IH show ?thesis by simp
    next
      case False
      with nm have "report_id_to_type w (hd m) \<noteq> SPT_GOLDENREFERENCES_T66"
        by (simp add: is_calibration_message_def)
      moreover from False have "take 10 m ! 0 = hd m"
        by (cases m) simp_all
      ultimately show ?thesis
        using rd False IH by (simp add: Let_def)
    qed
  qed
qed

lemma for_messages_finds:
  "queue w = pre @ m # q \<Longrightarrow> \<forall>p\<in>set pre. \<not> is_calibration_message w p \<Longrightarrow>
   is_calibration_message w m \<Longrightarrow> 2 \<le> length m \<Longrightarrow> length pre < n \<Longrightarrow>
   \<exists>buf' w'. for_messages n buf w = (Some (m ! 1), buf', w') \<and> queue w' = q"
proof (induction pre arbitrary: n buf w)
  case Nil
  then obtain k where n: "n = Suc k"
    by (cases n) auto
  from Nil have qw: "queue w = m # q"
    by simp
  note rd = mxt_get_msg_bytes_Cons [OF qw, of buf]
  from Nil have t66: "report_id_to_type w (hd m) = SPT_GOLDENREFERENCES_T66" and "m \<noteq> []"
    by (simp_all add: is_calibration_message_def)
  moreover from \<open>2 \<le> length m\<close> obtain a b r where "m = a # b # r"
    by (cases m; cases "tl m") auto
  then have "take 10 m ! 0 = hd m" "take 10 m ! 1 = m ! 1" "1 < length (take 10 m)"
    by simp_all
  ultimately show ?case
    using rd by (simp add: n Let_def)
next
  case (Cons p pre)
  then obtain k where n: "n = Suc k" and k: "length pre < k"
    by (cases n) auto
  from Cons.prems have qw: "queue w = p # (pre @ m # q)"
    by simp
  note rd = mxt_get_msg_bytes_Cons [OF qw, of buf]
  from Cons.prems have np: "\<not> is_calibration_message w p"
    by simp
  have IH: "\<exists>buf' w''. for_messages k b w' = (Some (m ! 1), buf', w'') \<and> queue w'' = q"
    if "queue w' = pre @ m # q" "report_id_to_type w' = report_id_to_type w" for b w'
    using that Cons.prems k
    by (intro Cons.IH) (simp_all add: is_calibration_message_def)
  show ?case
  proof (cases "p = []")
    case True
    with rd IH show ?thesis by (simp add: n)
  next
    case False
    with np have "report_id_to_type w (hd p) \<noteq> SPT_GOLDENREFERENCES_T66"
      by (simp add: is_calibration_message_def)
    moreover from False have "take 10 p ! 0 = hd p"
      by (cases p) simp_all
    ultimately show ?thesis
      using rd False IH by (simp add: n Let_def)
  qed
qed

text \<open>What a run of the for loop has read: messages that are not of the calibration
  object when it runs to its end, and such messages followed by one of the
  calibration object, whose second byte is the state, when it returns.\<close>

lemma for_messages_reads:
  "for_messages n buf w = (r, buf', w') \<Longrightarrow>
   (case r of
      None \<Rightarrow> \<exists>rs. reads w' = reads w @ rs \<and> (\<forall>p\<in>set rs. \<not> is_calibration_message w p)
    | Some state \<Rightarrow>
        \<exists>pre m. reads w' = reads w @ pre @ [m]
          \<and> (\<forall>p\<in>set pre. \<not> is_calibration_message w p)
          \<and> is_calibration_message w m \<and> (2 \<le> length m \<longrightarrow> state = m ! 1))"
proof (induction n arbitrary: buf w)
  case 0
  then show ?case by simp
next
  case (Suc n)
  have step: ?case
    if run: "for_messages n b v = (r, buf', w')"
      and rid: "report_id_to_type v = report_id_to_type w"
      and rd: "reads v = reads w @ [x]"
      and nx: "\<not> is_calibration_message w x"
    for b v x
  proof -
    note c = is_calibration_message_cong [OF rid]
    show ?thesis
    proof (cases r)
      case None
      with Suc.IH [OF run] obtain rs where "reads w' = reads v @ rs"
        "\<forall>p\<in>set rs. \<not> is_calibration_message v p"
        by auto
      with rd nx c have "reads w' = reads w @ (x # rs)"
        "\<forall>p\<in>set (x # rs). \<not> is_calibration_message w p"
        by simp_all
      with None show ?thesis
        by (simp only: option.case) blast
    next
      case (Some state)
      with Suc.IH [OF run] obtain pre m where "reads w' = reads v @ pre @ [m]"
        "\<forall>p\<in>set pre. \<not> is_calibration_message v p"
        "is_calibration_message v m" "2 \<le> length m \<longrightarrow> state = m ! 1"
        by auto
      with rd nx c have "reads w' = reads w @ (x # pre) @ [m]"
        "\<forall>p\<in>set (x # pre). \<not> is_calibration_message w p"
        "is_calibration_message w m" "2 \<le> length m \<longrightarrow> state = m ! 1"
        by simp_all
      with Some show ?thesis
        by (simp only: option.case) blast
    qed
  qed
  show ?case
  proof (cases "queue w")
    case Nil
    note rd = mxt_get_msg_bytes_Nil [OF Nil, of buf]
    with Suc.prems have "for_messages n buf (emit (GetMsgBytes []) w) = (r, buf', w')"
      by simp
    then show ?thesis
      by (rule step [where x = "[]"]) (simp_all add: is_calibration_message_def)
  next
    case (Cons m q)
    note rd = mxt_get_msg_bytes_Cons [OF Cons, of buf]
    let ?bs = "take 10 m"
    let ?w1 = "emit (GetMsgBytes ?bs) (w\<lparr>queue := q\<rparr>)"
    let ?buf1 = "\<lambda>i. if i < length ?bs then ?bs ! i else buf i"
    let ?w2 = "LOG LOG_VERBOSE ''Received message from T%u'' (report_id_to_type ?w1 (?buf1 0)) ?w1"
    have hd0: "?buf1 0 = hd ?bs" if "m \<noteq> []"
      using that by (cases m) simp_all
    consider (empty) "m = []"
      | (t66) "m \<noteq> []" "report_id_to_type ?w1 (?buf1 0) = SPT_GOLDENREFERENCES_T66"
      | (t6) "m \<noteq> []" "report_id_to_type ?w1 (?buf1 0) \<noteq> SPT_GOLDENREFERENCES_T66"
             "report_id_to_type ?w1 (?buf1 0) = GEN_COMMANDPROCESSOR_T6"
      | (other) "m \<noteq> []" "report_id_to_type ?w1 (?buf1 0) \<noteq> SPT_GOLDENREFERENCES_T66"
             "report_id_to_type ?w1 (?buf1 0) \<noteq> GEN_COMMANDPROCESSOR_T6"
      by blast
    then show ?thesis
    proof cases
      case empty
      with Suc.prems rd have "for_messages n ?buf1 ?w1 = (r, buf', w')"
        by simp
      then show ?thesis
        by (rule step [where x = "[]"]) (simp_all add: is_calibration_message_def empty)
    next
      case t66
      with Suc.prems rd have r: "r = Some (?buf1 1)"
        and w': "reads w' = reads w @ [] @ [?bs]"
        by (auto simp: Let_def)
      have "is_calibration_message w ?bs"
        using t66 hd0 by (simp add: is_calibration_message_def)
      moreover have "2 \<le> length ?bs \<longrightarrow> ?buf1 1 = ?bs ! 1"
        by simp
      ultimately show ?thesis
        unfolding r option.case using w' by (intro exI [of _ "[]"] exI [of _ ?bs]) simp
    next
      case t6
      with Suc.prems rd
      have run: "for_messages n ?buf1 (printf (mxt_gr_print_t6_state (?buf1 1)) ?w2) = (r, buf', w')"
        by (simp add: Let_def)
      from t6 hd0 have "\<not> is_calibration_message w ?bs"
        by (simp add: is_calibration_message_def)
      then show ?thesis
        by (intro step [where x = ?bs, OF run]) simp_all
    next
      case other
      with Suc.prems rd have run: "for_messages n ?buf1 ?w2 = (r, buf', w')"
        by (simp add: Let_def)
      from other hd0 have "\<not> is_calibration_message w ?bs"
        by (simp add: is_calibration_message_def)
      then show ?thesis
        by (intro step [where x = ?bs, OF run]) simp_all
    qed
  qed
qed

text \<open>A round of the loop in the world model is \<open>message_round\<close> at the number of
  bytes the read delivered; a negative result of the read passes the guard.\<close>

lemma size_t_length: "n \<le> 10 \<Longrightarrow> size_t (int n) = int n"
  by (simp add: size_t_def)

lemma for_messages_round:
  assumes "mxt_get_msg_bytes buf w = (len, buf1, w1)"
  shows "\<exists>r w2. message_round (int len) buf1 w1 = Some (r, w2)
           \<and> for_messages (Suc n) buf w
               = (case r of Some state \<Rightarrow> (Some state, buf1, w2)
                  | None \<Rightarrow> for_messages n buf1 w2)"
proof -
  have "len \<le> 10"
    using assms by (auto simp: mxt_get_msg_bytes_def Let_def split: list.splits)
  then have "size_t (int len) = int len"
    by (rule size_t_length)
  with \<open>len \<le> 10\<close> assms show ?thesis
    by (simp add: message_round_def Let_def)
qed

lemma negative_result_passes_guard:
  assumes "r < 0" and "- (2 ^ 63) \<le> r"
  shows "10 < size_t r"
proof -
  have "r mod 2 ^ 64 = (r + 2 ^ 64) mod 2 ^ 64"
    by simp
  also have "\<dots> = r + 2 ^ 64"
    using assms by (intro mod_pos_pos_trivial) simp_all
  finally show ?thesis
    using assms by (simp add: size_t_def)
qed

lemma drain_messages_eq:
  "drain_messages buf w =
     for_messages (length (queue w) mod 65536) buf
       (emit (GetMsgCount (word_of_nat (length (queue w)))) w)"
proof (cases "(word_of_nat (length (queue w)) :: u16) = 0")
  case True
  then have "unat (word_of_nat (length (queue w)) :: u16) = 0"
    by simp
  then have "length (queue w) mod 65536 = 0"
    by (simp add: unat_of_nat)
  with True show ?thesis
    by (simp add: drain_messages_def mxt_get_msg_count_def Let_def)
next
  case False
  then have "0 < (word_of_nat (length (queue w)) :: u16)"
    by (simp add: word_gt_0)
  then show ?thesis
    by (simp add: drain_messages_def mxt_get_msg_count_def unat_of_nat Let_def)
qed

subsection \<open>The poller's loop\<close>

text \<open>The three ways one pass of the loop goes.\<close>

lemma gr_status_loop_timed_out:
  "timeout_seconds < clock w - start_time \<Longrightarrow>
   gr_status_loop start_time timeout_seconds buf w = (Inl (- 1), printf ''Timeout\<newline>'' w)"
  by (simp add: time_def)

lemma gr_status_loop_found:
  "\<not> timeout_seconds < clock w - start_time \<Longrightarrow>
   drain_messages buf w = (Some state, buf', w2) \<Longrightarrow>
   gr_status_loop start_time timeout_seconds buf w = (Inr state, w2)"
  by (simp add: time_def)

lemma gr_status_loop_again:
  "\<not> timeout_seconds < clock w - start_time \<Longrightarrow>
   drain_messages buf w = (None, buf', w2) \<Longrightarrow>
   gr_status_loop start_time timeout_seconds buf w =
     gr_status_loop start_time timeout_seconds buf' (sleep 1 w2)"
  by (subst gr_status_loop.simps) (simp add: time_def)

declare gr_status_loop.simps [simp del]

lemma gr_status_loop_induct [case_names loop]:
  assumes step: "\<And>start_time timeout_seconds buf w.
     (\<And>buf' w2. \<not> timeout_seconds < clock w - start_time \<Longrightarrow>
        drain_messages buf w = (None, buf', w2) \<Longrightarrow>
        P start_time timeout_seconds buf' (sleep 1 w2)) \<Longrightarrow>
     P start_time timeout_seconds buf w"
  shows "P start_time timeout_seconds buf w"
proof (induction start_time timeout_seconds buf w rule: gr_status_loop.induct)
  case (1 start_time timeout_seconds buf w)
  show ?case
  proof (rule step)
    fix buf' w2
    assume "\<not> timeout_seconds < clock w - start_time"
      and "drain_messages buf w = (None, buf', w2)"
    then show "P start_time timeout_seconds buf' (sleep 1 w2)"
      by (intro "1.IH" [of "time w" None "(buf', w2)" buf' w2])
         (simp_all add: time_def)
  qed
qed

lemma drain_messages_frame:
  assumes "drain_messages buf w = (r, buf', w')"
  shows "arriving w' = arriving w \<and> on_write w' = on_write w \<and> write_rets w' = write_rets w
     \<and> report_id_to_type w' = report_id_to_type w
     \<and> register_writes w' = register_writes w \<and> polls w' = polls w + 1
     \<and> (r = None \<longrightarrow> queue w' = drop (length (queue w) mod 65536) (queue w))"
  using for_messages_frame [OF assms [unfolded drain_messages_eq]] by simp

lemma drain_messages_none:
  assumes "\<forall>m\<in>set (queue w). \<not> is_calibration_message w m"
  shows "fst (drain_messages buf w) = None"
  unfolding drain_messages_eq
proof (rule for_messages_none)
  show "\<forall>m\<in>set (take (length (queue w) mod 65536)
              (queue (emit (GetMsgCount (word_of_nat (length (queue w)))) w))).
          \<not> is_calibration_message (emit (GetMsgCount (word_of_nat (length (queue w)))) w) m"
    using assms by (auto simp: is_calibration_message_def dest: in_set_takeD)
qed

lemma drain_messages_finds:
  assumes "queue w = pre @ m # q" "\<forall>p\<in>set pre. \<not> is_calibration_message w p"
    "is_calibration_message w m" "2 \<le> length m" "length (queue w) < 65536"
  shows "\<exists>buf' w'. drain_messages buf w = (Some (m ! 1), buf', w') \<and> queue w' = q"
  unfolding drain_messages_eq
proof (rule for_messages_finds [where pre = pre])
  show "queue (emit (GetMsgCount (word_of_nat (length (queue w)))) w) = pre @ m # q"
    using assms(1) by simp
  show "\<forall>p\<in>set pre. \<not> is_calibration_message (emit (GetMsgCount (word_of_nat (length (queue w)))) w) p"
    using assms(2) by (simp add: is_calibration_message_def)
  show "is_calibration_message (emit (GetMsgCount (word_of_nat (length (queue w)))) w) m"
    using assms(3) by (simp add: is_calibration_message_def)
  show "2 \<le> length m" by fact
  show "length pre < length (queue w) mod 65536"
    using assms(1,5) by simp
qed

lemma drain_messages_reads:
  assumes "drain_messages buf w = (r, buf', w')"
  shows "case r of
      None \<Rightarrow> \<exists>rs. reads w' = reads w @ rs \<and> (\<forall>p\<in>set rs. \<not> is_calibration_message w p)
    | Some state \<Rightarrow>
        \<exists>pre m. reads w' = reads w @ pre @ [m]
          \<and> (\<forall>p\<in>set pre. \<not> is_calibration_message w p)
          \<and> is_calibration_message w m \<and> (2 \<le> length m \<longrightarrow> state = m ! 1)"
  using for_messages_reads [OF assms [unfolded drain_messages_eq]]
  by (cases r) (simp_all add: is_calibration_message_def)

text \<open>The poller writes no register and ends in one of two ways.\<close>

lemma gr_status_loop_frame:
  "gr_status_loop start_time timeout_seconds buf w = (r, w') \<Longrightarrow>
     register_writes w' = register_writes w \<and> on_write w' = on_write w
     \<and> write_rets w' = write_rets w \<and> report_id_to_type w' = report_id_to_type w
     \<and> (case r of
           Inl x \<Rightarrow> x = - 1 \<and> trace w' \<noteq> [] \<and> last (trace w') = Printf ''Timeout\<newline>''
         | Inr state \<Rightarrow> True)"
proof (induction start_time timeout_seconds buf w rule: gr_status_loop_induct)
  case (loop start_time timeout_seconds buf w)
  show ?case
  proof (cases "timeout_seconds < clock w - start_time")
    case True
    from loop.prems gr_status_loop_timed_out [OF True, of buf] show ?thesis
      by auto
  next
    case False
    obtain d buf' w2 where d: "drain_messages buf w = (d, buf', w2)"
      by (cases "drain_messages buf w") auto
    note fr = drain_messages_frame [OF d]
    show ?thesis
    proof (cases d)
      case None
      with d have d': "drain_messages buf w = (None, buf', w2)"
        by simp
      from loop.prems gr_status_loop_again [OF False d']
      have "gr_status_loop start_time timeout_seconds buf' (sleep 1 w2) = (r, w')"
        by simp
      from loop.IH [OF False d' this] fr show ?thesis
        by simp
    next
      case (Some state)
      with d have d': "drain_messages buf w = (Some state, buf', w2)"
        by simp
      from loop.prems gr_status_loop_found [OF False d'] fr show ?thesis
        by auto
    qed
  qed
qed

text \<open>Without a calibration message among those it can read, the poller times out.\<close>

lemma gr_status_loop_no_message:
  "(clock w - start_time \<le> timeout_seconds \<Longrightarrow>
      \<forall>m\<in>set (queue w @ concat (take (nat (timeout_seconds - (clock w - start_time))) (arriving w))).
         \<not> is_calibration_message w m) \<Longrightarrow>
   fst (gr_status_loop start_time timeout_seconds buf w) = Inl (- 1)"
proof (induction start_time timeout_seconds buf w rule: gr_status_loop_induct)
  case (loop start_time timeout_seconds buf w)
  show ?case
  proof (cases "timeout_seconds < clock w - start_time")
    case True
    then show ?thesis
      by (simp add: gr_status_loop_timed_out)
  next
    case False
    then have live: "clock w - start_time \<le> timeout_seconds"
      by simp
    note none = loop.prems [OF live]
    then have "fst (drain_messages buf w) = None"
      by (intro drain_messages_none) simp
    then obtain buf' w2 where d: "drain_messages buf w = (None, buf', w2)"
      by (cases "drain_messages buf w") auto
    note fr = drain_messages_frame [OF d]
    have c2: "clock w2 = clock w"
      using d by (rule clock_drain_messages)
    have "fst (gr_status_loop start_time timeout_seconds buf' (sleep 1 w2)) = Inl (- 1)"
    proof (rule loop.IH [OF False d])
      assume next_live: "clock (sleep 1 w2) - start_time \<le> timeout_seconds"
      let ?k = "nat (timeout_seconds - (clock w - start_time))"
      from next_live c2 have k: "?k = Suc (nat (timeout_seconds - (clock (sleep 1 w2) - start_time)))"
        by simp
      let ?new = "queue (sleep 1 w2)
               @ concat (take (nat (timeout_seconds - (clock (sleep 1 w2) - start_time)))
                           (arriving (sleep 1 w2)))"
      let ?old = "queue w @ concat (take ?k (arriving w))"
      have sub: "set ?new \<subseteq> set ?old"
      proof -
        have "set (queue w2) \<subseteq> set (queue w)"
          using fr by (auto dest: in_set_dropD)
        moreover have "take ?k (arriving w)
             = take 1 (arriving w)
               @ take (nat (timeout_seconds - (clock (sleep 1 w2) - start_time))) (drop 1 (arriving w))"
          unfolding k by (cases "arriving w") simp_all
        ultimately show ?thesis
          using fr by auto
      qed
      have rid: "report_id_to_type (sleep 1 w2) = report_id_to_type w"
        using fr by simp
      show "\<forall>m\<in>set ?new. \<not> is_calibration_message (sleep 1 w2) m"
      proof
        fix m
        assume "m \<in> set ?new"
        with sub have "m \<in> set ?old"
          by blast
        with none have "\<not> is_calibration_message w m"
          by blast
        then show "\<not> is_calibration_message (sleep 1 w2) m"
          using is_calibration_message_cong [OF rid, of m] by simp
      qed
    qed
    with gr_status_loop_again [OF False d] show ?thesis
      by simp
  qed
qed


text \<open>What a poll has read: when it times out, no message of the calibration object;
  when it returns a state, messages that are not of the calibration object and
  then one that is, whose second byte is the state returned.\<close>

lemma gr_status_loop_reads:
  "gr_status_loop start_time timeout_seconds buf w = (r, w') \<Longrightarrow>
   (case r of
      Inl x \<Rightarrow> \<exists>rs. reads w' = reads w @ rs \<and> (\<forall>p\<in>set rs. \<not> is_calibration_message w p)
    | Inr state \<Rightarrow>
        \<exists>pre m. reads w' = reads w @ pre @ [m]
          \<and> (\<forall>p\<in>set pre. \<not> is_calibration_message w p)
          \<and> is_calibration_message w m \<and> (2 \<le> length m \<longrightarrow> state = m ! 1))"
proof (induction start_time timeout_seconds buf w rule: gr_status_loop_induct)
  case (loop start_time timeout_seconds buf w)
  show ?case
  proof (cases "timeout_seconds < clock w - start_time")
    case True
    from loop.prems gr_status_loop_timed_out [OF True, of buf]
    have "r = Inl (- 1)" "reads w' = reads w @ []"
      by auto
    then show ?thesis
      by auto
  next
    case False
    obtain d buf' w2 where d: "drain_messages buf w = (d, buf', w2)"
      by (cases "drain_messages buf w") auto
    note fr = drain_messages_frame [OF d]
    note dr = drain_messages_reads [OF d]
    show ?thesis
    proof (cases d)
      case (Some state)
      with d have d': "drain_messages buf w = (Some state, buf', w2)"
        by simp
      from loop.prems gr_status_loop_found [OF False d'] have "r = Inr state" "w' = w2"
        by simp_all
      with dr Some show ?thesis
        by simp
    next
      case None
      with d have d': "drain_messages buf w = (None, buf', w2)"
        by simp
      from dr None obtain rs1 where rs1: "reads w2 = reads w @ rs1"
        "\<forall>p\<in>set rs1. \<not> is_calibration_message w p"
        by auto
      from loop.prems gr_status_loop_again [OF False d']
      have run: "gr_status_loop start_time timeout_seconds buf' (sleep 1 w2) = (r, w')"
        by simp
      have rid: "report_id_to_type (sleep 1 w2) = report_id_to_type w"
        using fr by simp
      note c = is_calibration_message_cong [OF rid]
      note IH = loop.IH [OF False d' run]
      show ?thesis
      proof (cases r)
        case (Inl x)
        with IH obtain rs where rs: "reads w' = reads (sleep 1 w2) @ rs"
          "\<forall>p\<in>set rs. \<not> is_calibration_message (sleep 1 w2) p"
          by auto
        from rs(2) have "\<forall>p\<in>set rs. \<not> is_calibration_message w p"
          unfolding c .
        with rs(1) rs1 have "reads w' = reads w @ (rs1 @ rs)"
          "\<forall>p\<in>set (rs1 @ rs). \<not> is_calibration_message w p"
          by auto
        with Inl show ?thesis
          by (simp only: sum.case) blast
      next
        case (Inr state)
        with IH obtain pre m where pm: "reads w' = reads (sleep 1 w2) @ pre @ [m]"
          "\<forall>p\<in>set pre. \<not> is_calibration_message (sleep 1 w2) p"
          "is_calibration_message (sleep 1 w2) m" "2 \<le> length m \<longrightarrow> state = m ! 1"
          by auto
        from pm(2,3) have "\<forall>p\<in>set pre. \<not> is_calibration_message w p"
          "is_calibration_message w m"
          unfolding c by simp_all
        with pm(1,4) rs1 have "reads w' = reads w @ (rs1 @ pre) @ [m]"
          "\<forall>p\<in>set (rs1 @ pre). \<not> is_calibration_message w p"
          "is_calibration_message w m" "2 \<le> length m \<longrightarrow> state = m ! 1"
          by auto
        with Inr show ?thesis
          by (simp only: sum.case) blast
      qed
    qed
  qed
qed


subsection \<open>Decoding the status byte\<close>

lemma flag_bit: "(state AND push_bit n 1 \<noteq> 0) = bit state n" for state :: u8
  by (simp add: bit_iff_and_push_bit_not_eq_0)

lemma bit_FCALSTATE_MASK: "bit GR_STATE_FCALSTATE_MASK n = (n = 1 \<or> n = 2)"
  unfolding GR_STATE_FCALSTATE_MASK_def GR_STATE_PRIMED_def GR_STATE_GENERATED_def
  by (simp only: bit_or_iff bit_push_bit_iff bit_1_iff possible_bit_word) auto

lemma bit_PRIMED: "bit GR_STATE_PRIMED n = (n = 1)"
  unfolding GR_STATE_PRIMED_def
  by (simp only: bit_push_bit_iff bit_1_iff possible_bit_word) auto

lemma bit_GENERATED: "bit GR_STATE_GENERATED n = (n = 2)"
  unfolding GR_STATE_GENERATED_def
  by (simp only: bit_push_bit_iff bit_1_iff possible_bit_word) auto

lemma bit_IDLE: "bit GR_STATE_IDLE n = False"
  by (simp add: GR_STATE_IDLE_def)

lemma bit_fcal_state:
  "bit (state AND GR_STATE_FCALSTATE_MASK) n = (bit state n \<and> (n = 1 \<or> n = 2))"
  by (simp add: bit_and_iff bit_FCALSTATE_MASK)

lemma fcal_state_eq:
  "(state AND GR_STATE_FCALSTATE_MASK = x) =
     (bit x 1 = bit state 1 \<and> bit x 2 = bit state 2 \<and> (\<forall>n. bit x n \<longrightarrow> n = 1 \<or> n = 2))"
proof
  assume h: "state AND GR_STATE_FCALSTATE_MASK = x"
  have "bit x n = (bit state n \<and> (n = 1 \<or> n = 2))" for n
    using bit_fcal_state [of state n] h by simp
  then show "bit x 1 = bit state 1 \<and> bit x 2 = bit state 2 \<and> (\<forall>n. bit x n \<longrightarrow> n = 1 \<or> n = 2)"
    by simp
next
  assume h: "bit x 1 = bit state 1 \<and> bit x 2 = bit state 2 \<and> (\<forall>n. bit x n \<longrightarrow> n = 1 \<or> n = 2)"
  show "state AND GR_STATE_FCALSTATE_MASK = x"
  proof (rule bit_word_eqI)
    fix n
    show "bit (state AND GR_STATE_FCALSTATE_MASK) n = bit x n"
      unfolding bit_fcal_state using h by blast
  qed
qed

lemma phase_bits:
  shows "(state AND GR_STATE_FCALSTATE_MASK = GR_STATE_IDLE) = (\<not> bit state 1 \<and> \<not> bit state 2)"
    and "(state AND GR_STATE_FCALSTATE_MASK = GR_STATE_PRIMED) = (bit state 1 \<and> \<not> bit state 2)"
    and "(state AND GR_STATE_FCALSTATE_MASK = GR_STATE_GENERATED) = (\<not> bit state 1 \<and> bit state 2)"
    and "(state AND GR_STATE_FCALSTATE_MASK = GR_STATE_FCALSTATE_MASK) = (bit state 1 \<and> bit state 2)"
  unfolding fcal_state_eq bit_IDLE bit_PRIMED bit_GENERATED bit_FCALSTATE_MASK
  by simp_all

lemma decoded_flags:
  "(state AND GR_STATE_BADSTOREDATA \<noteq> 0) = badStoredData (decodeCalibrationState state)"
  "(state AND GR_STATE_FCALSEQERR \<noteq> 0) = sequenceError (decodeCalibrationState state)"
  "(state AND GR_STATE_FCALSEQTO \<noteq> 0) = sequenceTimeout (decodeCalibrationState state)"
  "(state AND GR_STATE_FCALSEQDONE \<noteq> 0) = sequenceDone (decodeCalibrationState state)"
  "(state AND GR_STATE_FCALPASS \<noteq> 0) = fcalPass (decodeCalibrationState state)"
  "(state AND GR_STATE_FCALFAIL \<noteq> 0) = fcalFail (decodeCalibrationState state)"
  unfolding GR_STATE_BADSTOREDATA_def GR_STATE_FCALSEQERR_def GR_STATE_FCALSEQTO_def
    GR_STATE_FCALSEQDONE_def GR_STATE_FCALPASS_def GR_STATE_FCALFAIL_def flag_bit
  by (simp_all add: decodeCalibrationState_def)

lemma decoded_phase:
  "(state AND GR_STATE_FCALSTATE_MASK = GR_STATE_IDLE)
     = (phase (decodeCalibrationState state) = Idle)"
  "(state AND GR_STATE_FCALSTATE_MASK = GR_STATE_PRIMED)
     = (phase (decodeCalibrationState state) = Primed)"
  "(state AND GR_STATE_FCALSTATE_MASK = GR_STATE_GENERATED)
     = (phase (decodeCalibrationState state) = Generated)"
  "(state AND GR_STATE_FCALSTATE_MASK = GR_STATE_FCALSTATE_MASK)
     = (phase (decodeCalibrationState state) = Reserved)"
  unfolding phase_bits by (simp_all add: decodeCalibrationState_def)

lemma printed_phase:
  "(if state AND GR_STATE_FCALSTATE_MASK = GR_STATE_IDLE then ''Idle '' else '''')
   @ (if state AND GR_STATE_FCALSTATE_MASK = GR_STATE_GENERATED then ''Generated '' else '''')
   @ (if state AND GR_STATE_FCALSTATE_MASK = GR_STATE_PRIMED then ''Primed '' else '''')
   @ rest
   = (case phase (decodeCalibrationState state) of
        Idle \<Rightarrow> ''Idle '' | Primed \<Rightarrow> ''Primed ''
      | Generated \<Rightarrow> ''Generated '' | Reserved \<Rightarrow> '''') @ rest"
  unfolding decoded_phase by (cases "phase (decodeCalibrationState state)") simp_all

text \<open>
  C2. The tests \<^verbatim>\<open>mxt_gr_print_state\<close> makes on a status byte are the bit layout of
  the spec's decoder, for every byte: bit 0 is badStoredData, bits 1 and 2 are the
  phase (00 Idle, 01 Primed, 10 Generated, 11 reserved, for which the source prints
  no phase name), bit 3 is sequenceError, bit 4 sequenceTimeout, bit 5
  sequenceDone, bit 6 fcalPass and bit 7 fcalFail; the masked phase bits are
  always one of the four values; and the line printed is a function of the decoded
  state and the byte alone, so decoding the same byte again gives the same result.
\<close>

theorem decode_matches_bit_layout:
  "(state AND GR_STATE_BADSTOREDATA \<noteq> 0) = badStoredData (decodeCalibrationState state)
   \<and> (state AND GR_STATE_FCALSEQERR \<noteq> 0) = sequenceError (decodeCalibrationState state)
   \<and> (state AND GR_STATE_FCALSEQTO \<noteq> 0) = sequenceTimeout (decodeCalibrationState state)
   \<and> (state AND GR_STATE_FCALSEQDONE \<noteq> 0) = sequenceDone (decodeCalibrationState state)
   \<and> (state AND GR_STATE_FCALPASS \<noteq> 0) = fcalPass (decodeCalibrationState state)
   \<and> (state AND GR_STATE_FCALFAIL \<noteq> 0) = fcalFail (decodeCalibrationState state)
   \<and> (state AND GR_STATE_FCALSTATE_MASK = GR_STATE_IDLE)
       = (phase (decodeCalibrationState state) = Idle)
   \<and> (state AND GR_STATE_FCALSTATE_MASK = GR_STATE_PRIMED)
       = (phase (decodeCalibrationState state) = Primed)
   \<and> (state AND GR_STATE_FCALSTATE_MASK = GR_STATE_GENERATED)
       = (phase (decodeCalibrationState state) = Generated)
   \<and> (state AND GR_STATE_FCALSTATE_MASK = GR_STATE_FCALSTATE_MASK)
       = (phase (decodeCalibrationState state) = Reserved)
   \<and> state AND GR_STATE_FCALSTATE_MASK
       \<in> {GR_STATE_IDLE, GR_STATE_PRIMED, GR_STATE_GENERATED, GR_STATE_FCALSTATE_MASK}
   \<and> mxt_gr_print_state state =
       ''T66 state: '' @ hex2 state @ '' ''
       @ (if fcalFail (decodeCalibrationState state) then ''FCALFAIL '' else '''')
       @ (if fcalPass (decodeCalibrationState state) then ''FCALPASS '' else '''')
       @ (if sequenceDone (decodeCalibrationState state) then ''FCALSEQDONE '' else '''')
       @ (if sequenceTimeout (decodeCalibrationState state) then ''FCALSEQTO '' else '''')
       @ (if sequenceError (decodeCalibrationState state) then ''FCALSEQERR '' else '''')
       @ (case phase (decodeCalibrationState state) of
            Idle \<Rightarrow> ''Idle '' | Primed \<Rightarrow> ''Primed ''
          | Generated \<Rightarrow> ''Generated '' | Reserved \<Rightarrow> '''')
       @ (if badStoredData (decodeCalibrationState state) then ''BADSTOREDATA '' else '''')
       @ ''\<newline>''"
proof -
  have four: "state AND GR_STATE_FCALSTATE_MASK
       \<in> {GR_STATE_IDLE, GR_STATE_PRIMED, GR_STATE_GENERATED, GR_STATE_FCALSTATE_MASK}"
    using phase_bits [of state] by (cases "bit state 1"; cases "bit state 2") simp_all
  have printed: "mxt_gr_print_state state =
       ''T66 state: '' @ hex2 state @ '' ''
       @ (if fcalFail (decodeCalibrationState state) then ''FCALFAIL '' else '''')
       @ (if fcalPass (decodeCalibrationState state) then ''FCALPASS '' else '''')
       @ (if sequenceDone (decodeCalibrationState state) then ''FCALSEQDONE '' else '''')
       @ (if sequenceTimeout (decodeCalibrationState state) then ''FCALSEQTO '' else '''')
       @ (if sequenceError (decodeCalibrationState state) then ''FCALSEQERR '' else '''')
       @ (case phase (decodeCalibrationState state) of
            Idle \<Rightarrow> ''Idle '' | Primed \<Rightarrow> ''Primed ''
          | Generated \<Rightarrow> ''Generated '' | Reserved \<Rightarrow> '''')
       @ (if badStoredData (decodeCalibrationState state) then ''BADSTOREDATA '' else '''')
       @ ''\<newline>''"
    unfolding mxt_gr_print_state_def decoded_flags printed_phase ..
  from decoded_flags [of state] decoded_phase [of state] four printed show ?thesis
    by (intro conjI)
qed

subsection \<open>The poller\<close>

lemma mxt_gr_get_status_frame:
  assumes "mxt_gr_get_status timeout_seconds w = (r, w')"
  shows "register_writes w' = register_writes w \<and> on_write w' = on_write w
     \<and> write_rets w' = write_rets w \<and> report_id_to_type w' = report_id_to_type w
     \<and> (case r of
           Inl x \<Rightarrow> x = - 1 \<and> trace w' \<noteq> [] \<and> last (trace w') = Printf ''Timeout\<newline>''
         | Inr state \<Rightarrow> True)"
  using assms gr_status_loop_frame [of "clock w" timeout_seconds "stack w" w r w']
  by (simp add: mxt_gr_get_status_def time_def)

lemma mxt_gr_get_status_no_message:
  assumes "\<forall>m\<in>set (received timeout_seconds w). \<not> is_calibration_message w m"
  shows "fst (mxt_gr_get_status timeout_seconds w) = Inl (- 1)"
  unfolding mxt_gr_get_status_def time_def Let_def
  by (rule gr_status_loop_no_message) (use assms in \<open>simp add: received_def\<close>)

text \<open>
  C7. If no message the poller can read within its bound is one of the calibration
  object (all come from the command processor or other objects, or deliver no
  byte), the poll returns -1 after printing the timeout notice; and whenever the
  poll returns success, a calibration-object message was among those it could read.
\<close>

theorem poll_without_calibration_message:
  "((\<forall>m\<in>set (received timeout_seconds w). \<not> is_calibration_message w m) \<longrightarrow>
      fst (mxt_gr_get_status timeout_seconds w) = Inl (- 1)
      \<and> last (trace (snd (mxt_gr_get_status timeout_seconds w))) = Printf ''Timeout\<newline>'')
   \<and> (\<forall>state. fst (mxt_gr_get_status timeout_seconds w) = Inr state \<longrightarrow>
        (\<exists>m\<in>set (received timeout_seconds w). is_calibration_message w m))"
proof (intro conjI impI allI)
  assume none: "\<forall>m\<in>set (received timeout_seconds w). \<not> is_calibration_message w m"
  then show "fst (mxt_gr_get_status timeout_seconds w) = Inl (- 1)"
    by (rule mxt_gr_get_status_no_message)
  then obtain w' where "mxt_gr_get_status timeout_seconds w = (Inl (- 1), w')"
    by (cases "mxt_gr_get_status timeout_seconds w") auto
  from mxt_gr_get_status_frame [OF this] this
  show "last (trace (snd (mxt_gr_get_status timeout_seconds w))) = Printf ''Timeout\<newline>''"
    by simp
next
  fix state
  assume ok: "fst (mxt_gr_get_status timeout_seconds w) = Inr state"
  show "\<exists>m\<in>set (received timeout_seconds w). is_calibration_message w m"
  proof (rule ccontr)
    assume "\<not> (\<exists>m\<in>set (received timeout_seconds w). is_calibration_message w m)"
    then have "fst (mxt_gr_get_status timeout_seconds w) = Inl (- 1)"
      by (intro mxt_gr_get_status_no_message) blast
    with ok show False
      by simp
  qed
qed

theorem poll_without_calibration_message_witness:
  "list_all (\<lambda>m. \<not> is_calibration_message late m) (received 1 late)
   \<and> fst (mxt_gr_get_status 1 late) = Inl (- 1)
   \<and> last (trace (snd (mxt_gr_get_status 1 late))) = Printf ''Timeout\<newline>''
   \<and> fst (mxt_gr_get_status 2 late) = Inr 0x02
   \<and> (\<exists>m\<in>set (received 2 late). is_calibration_message late m)"
proof -
  have quiet: "list_all (\<lambda>m. \<not> is_calibration_message late m) (received 1 late)"
    by code_simp
  have found: "fst (mxt_gr_get_status 2 late) = Inr 0x02"
    by code_simp
  from quiet have "\<forall>m\<in>set (received 1 late). \<not> is_calibration_message late m"
    by (simp add: list_all_iff)
  with poll_without_calibration_message [of 1 late]
    poll_without_calibration_message [of 2 late] quiet found
  show ?thesis
    by blast
qed

text \<open>
  C8. A read that fails is not reported. The result of \<^verbatim>\<open>mxt_get_msg_bytes\<close> goes
  into \<^verbatim>\<open>size_t len\<close> and is tested with \<^verbatim>\<open>len > 0\<close> only, where the calls of
  \<^verbatim>\<open>mxt_write_register\<close> and \<^verbatim>\<open>mxt_msg_reset\<close> are followed by \<^verbatim>\<open>if (ret < 0) return ret\<close>.
  When the read after the command-processor message \<open>03 10\<close> returns -1, the value
  in \<open>len\<close> is positive, the message still in the buffer is handled a second time
  (its status is printed again) and the loop goes on; no error leaves the poller.
\<close>

theorem failed_read_is_taken_for_a_message:
  "trace (snd after_t6)
     = [GetMsgBytes [3, 0x10],
        Log LOG_VERBOSE ''Received message from T%u'' 6,
        Printf ''T6 status: CAL \<newline>'']
   \<and> 0 < size_t (- 1)
   \<and> map_option fst (message_round (- 1) (fst after_t6) (snd after_t6)) = Some None
   \<and> map_option (trace \<circ> snd) (message_round (- 1) (fst after_t6) (snd after_t6))
       = Some [GetMsgBytes [3, 0x10],
               Log LOG_VERBOSE ''Received message from T%u'' 6,
               Printf ''T6 status: CAL \<newline>'',
               Log LOG_VERBOSE ''Received message from T%u'' 6,
               Printf ''T6 status: CAL \<newline>'']"
  by code_simp




subsection \<open>The sequencer\<close>

lemma mxt_write_register_effect:
  "register_writes (snd (mxt_write_register bytes addr w)) = register_writes w @ [(addr, bytes)]"
  "fst (mxt_write_register bytes addr w) = (case write_rets w of [] \<Rightarrow> 0 | r # _ \<Rightarrow> r)"
  "on_write (snd (mxt_write_register bytes addr w)) = on_write w"
  "report_id_to_type (snd (mxt_write_register bytes addr w)) = report_id_to_type w"
  "write_rets (snd (mxt_write_register bytes addr w)) = tl (write_rets w)"
  "queue (snd (mxt_write_register bytes addr w)) =
     (if fst (mxt_write_register bytes addr w) < 0 then queue w
      else queue w @ on_write w addr bytes)"
  "trace (snd (mxt_write_register bytes addr w)) = trace w @ [WriteRegister addr bytes]"
  by (simp_all add: mxt_write_register_def Let_def register_writes_def emit_def)

lemma write_command_effect:
  "register_writes (snd (write_command addr cmd w))
     = register_writes w @ [(addr, [cmd OR (GR_ENABLE OR GR_RPTEN)])]"
  "fst (write_command addr cmd w) = (case write_rets w of [] \<Rightarrow> 0 | r # _ \<Rightarrow> r)"
  "on_write (snd (write_command addr cmd w)) = on_write w"
  "report_id_to_type (snd (write_command addr cmd w)) = report_id_to_type w"
  "write_rets (snd (write_command addr cmd w)) = tl (write_rets w)"
  "queue (snd (write_command addr cmd w)) =
     (if fst (write_command addr cmd w) < 0 then queue w
      else queue w @ on_write w addr [cmd OR (GR_ENABLE OR GR_RPTEN)])"
  by (simp_all add: write_command_def Let_def mxt_write_register_effect GR_CTRL_def)

lemma mxt_gr_run_command_stages:
  "mxt_gr_run_command addr cmd wanted_fcal_state wanted_statebit w =
     (if fst (write_command addr cmd w) < 0 then write_command addr cmd w
      else
        (case answer_to_command addr cmd w of
           (Inl ret, w2) \<Rightarrow> (ret, w2)
         | (Inr actual_state, w2) \<Rightarrow>
             if actual_state AND GR_STATE_FCALSTATE_MASK = wanted_fcal_state
                \<and> actual_state AND wanted_statebit \<noteq> 0
             then (0, w2)
             else (- 1, printf ''Failed to enter correct state\<newline>'' w2)))"
  by (simp add: mxt_gr_run_command_def write_command_def answer_to_command_def Let_def
           split: prod.splits)

lemma answer_to_command_frame:
  assumes "answer_to_command addr cmd w = (r, w2)"
  shows "register_writes w2 = register_writes w @ [(addr, [cmd OR (GR_ENABLE OR GR_RPTEN)])]"
    and "on_write w2 = on_write w" and "report_id_to_type w2 = report_id_to_type w"
    and "write_rets w2 = tl (write_rets w)"
    and "\<And>x. r = Inl x \<Longrightarrow> x = - 1"
  using mxt_gr_get_status_frame [OF assms [unfolded answer_to_command_def]]
  by (simp_all add: write_command_effect)

text \<open>Every run of the sequencer issues one register write, that of its command.\<close>

lemma run_command_writes:
  "register_writes (snd (mxt_gr_run_command addr cmd wanted_fcal_state wanted_statebit w))
     = register_writes w @ [(addr, [cmd OR (GR_ENABLE OR GR_RPTEN)])]"
proof (cases "fst (write_command addr cmd w) < 0")
  case True
  then show ?thesis
    by (simp add: mxt_gr_run_command_stages write_command_effect)
next
  case False
  obtain r w2 where a: "answer_to_command addr cmd w = (r, w2)"
    by (cases "answer_to_command addr cmd w") auto
  from False a answer_to_command_frame(1) [OF a] show ?thesis
    by (cases r) (simp_all add: mxt_gr_run_command_stages)
qed

lemma enable_bits:
  fixes cmd :: u8
  shows "bit (cmd OR (GR_ENABLE OR GR_RPTEN)) 0" "bit (cmd OR (GR_ENABLE OR GR_RPTEN)) 1"
    "drop_bit 2 (cmd OR (GR_ENABLE OR GR_RPTEN)) = drop_bit 2 cmd"
    "(cmd OR (GR_ENABLE OR GR_RPTEN)) AND cmd = cmd"
    "(cmd OR (GR_ENABLE OR GR_RPTEN)) AND GR_FCALCMD_MASK = cmd AND GR_FCALCMD_MASK"
proof -
  have e: "bit GR_ENABLE n = (n = 0)" and r: "bit GR_RPTEN n = (n = 1)" for n
    unfolding GR_ENABLE_def GR_RPTEN_def
    by (simp_all only: bit_push_bit_iff bit_1_iff possible_bit_word) auto
  have p: "bit GR_FCALCMD_PRIME n = (n = 2)" and g: "bit GR_FCALCMD_GENERATE n = (n = 3)" for n
    unfolding GR_FCALCMD_PRIME_def GR_FCALCMD_GENERATE_def
    by (simp_all only: bit_push_bit_iff bit_1_iff possible_bit_word) auto
  show "bit (cmd OR (GR_ENABLE OR GR_RPTEN)) 0" "bit (cmd OR (GR_ENABLE OR GR_RPTEN)) 1"
    by (simp_all add: bit_or_iff e r)
  show "drop_bit 2 (cmd OR (GR_ENABLE OR GR_RPTEN)) = drop_bit 2 cmd"
    by (rule bit_word_eqI) (simp add: bit_drop_bit_eq bit_or_iff e r)
  show "(cmd OR (GR_ENABLE OR GR_RPTEN)) AND cmd = cmd"
    by (rule bit_word_eqI) (auto simp: bit_and_iff bit_or_iff)
  show "(cmd OR (GR_ENABLE OR GR_RPTEN)) AND GR_FCALCMD_MASK = cmd AND GR_FCALCMD_MASK"
    unfolding GR_FCALCMD_MASK_def GR_FCALCMD_STORE_def
    by (rule bit_word_eqI) (auto simp: bit_and_iff bit_or_iff e r p g)
qed

text \<open>
  C4. Whatever command the caller gives, a run of the sequencer issues one register
  write, to the control register at \<open>addr + 0\<close>, of one byte that has the enable bit
  (bit 0) and the report-enable bit (bit 1) set and the caller's bits unchanged:
  all bits from bit 2 up are the caller's, the command subfield among them, and no
  bit the caller set is cleared.
\<close>

theorem command_byte_has_enable_bits:
  "register_writes (snd (mxt_gr_run_command addr cmd wanted_fcal_state wanted_statebit w))
     = register_writes w @ [(addr + GR_CTRL, [cmd OR (GR_ENABLE OR GR_RPTEN)])]
   \<and> addr + GR_CTRL = addr
   \<and> bit (cmd OR (GR_ENABLE OR GR_RPTEN)) 0
   \<and> bit (cmd OR (GR_ENABLE OR GR_RPTEN)) 1
   \<and> drop_bit 2 (cmd OR (GR_ENABLE OR GR_RPTEN)) = drop_bit 2 cmd
   \<and> (cmd OR (GR_ENABLE OR GR_RPTEN)) AND GR_FCALCMD_MASK = cmd AND GR_FCALCMD_MASK
   \<and> (cmd OR (GR_ENABLE OR GR_RPTEN)) AND cmd = cmd"
  using run_command_writes [of addr cmd wanted_fcal_state wanted_statebit w] enable_bits [of cmd]
  by (simp add: GR_CTRL_def)

lemma mxt_gr_get_status_finds:
  assumes "queue w = pre @ m # q" "\<forall>p\<in>set pre. \<not> is_calibration_message w p"
    "is_calibration_message w m" "2 \<le> length m" "length (queue w) < 65536"
    "0 \<le> timeout_seconds"
  shows "\<exists>w'. mxt_gr_get_status timeout_seconds w = (Inr (m ! 1), w') \<and> queue w' = q"
proof -
  from drain_messages_finds [OF assms(1-5), of "stack w"]
  obtain buf' w' where d: "drain_messages (stack w) w = (Some (m ! 1), buf', w')"
    and q: "queue w' = q"
    by blast
  from assms(6) have "\<not> timeout_seconds < clock w - clock w"
    by simp
  from gr_status_loop_found [OF this d] q show ?thesis
    by (simp add: mxt_gr_get_status_def time_def)
qed

lemma single_bit_mask:
  fixes a :: u8
  assumes "n < 8"
  shows "(a AND push_bit n 1 \<noteq> 0) = (a AND push_bit n 1 = push_bit n 1)"
proof -
  define p :: u8 where "p = push_bit n 1"
  have p: "bit p k = (k = n)" for k
    unfolding p_def using assms
    by (simp only: bit_push_bit_iff bit_1_iff possible_bit_word) auto
  have "(a AND p = p) = bit a n"
  proof
    assume "a AND p = p"
    then have "bit (a AND p) n = bit p n"
      by (rule arg_cong)
    then show "bit a n"
      unfolding bit_and_iff p by simp
  next
    assume "bit a n"
    then show "a AND p = p"
      by (intro bit_word_eqI) (auto simp: bit_and_iff p)
  qed
  moreover have "(a AND p \<noteq> 0) = bit a n"
    unfolding p_def by (rule flag_bit)
  ultimately show ?thesis
    unfolding p_def by simp
qed

text \<open>
  C3, as amended. When the command was written and the poller returned a state, the
  sequencer succeeds if and only if the state's phase bits equal the wanted phase
  and at least one bit of \<^verbatim>\<open>wanted_statebit\<close> is set in the state; otherwise it
  returns -1 after printing that the state is not the correct one. For a mask of
  one bit, as in the three calls of the procedure, one bit set is all bits set.
\<close>

theorem sequencer_checks_phase_and_flag:
  assumes "0 \<le> fst (write_command addr cmd w)"
    and "fst (answer_to_command addr cmd w) = Inr actual_state"
  shows "(fst (mxt_gr_run_command addr cmd wanted_fcal_state wanted_statebit w) = 0)
           = (actual_state AND GR_STATE_FCALSTATE_MASK = wanted_fcal_state
              \<and> actual_state AND wanted_statebit \<noteq> 0)
     \<and> (fst (mxt_gr_run_command addr cmd wanted_fcal_state wanted_statebit w) \<noteq> 0 \<longrightarrow>
          mxt_gr_run_command addr cmd wanted_fcal_state wanted_statebit w
            = (- 1, printf ''Failed to enter correct state\<newline>''
                      (snd (answer_to_command addr cmd w))))
     \<and> (\<forall>n<8. wanted_statebit = push_bit n 1 \<longrightarrow>
          (actual_state AND wanted_statebit \<noteq> 0)
            = (actual_state AND wanted_statebit = wanted_statebit))"
proof -
  obtain w2 where a: "answer_to_command addr cmd w = (Inr actual_state, w2)"
    using assms(2) by (cases "answer_to_command addr cmd w") auto
  from assms(1) have ok: "\<not> fst (write_command addr cmd w) < 0"
    by simp
  show ?thesis
    using single_bit_mask [of _ actual_state]
    by (simp add: mxt_gr_run_command_stages ok a)
qed

theorem sequencer_checks_phase_and_flag_witness:
  "0 \<le> fst (write_command 0x0123 GR_FCALCMD_GENERATE passing)
   \<and> fst (answer_to_command 0x0123 GR_FCALCMD_GENERATE passing) = Inr 0x44
   \<and> (fst (mxt_gr_run_command 0x0123 GR_FCALCMD_GENERATE GR_STATE_GENERATED GR_STATE_FCALPASS
             passing) = 0)
       = (0x44 AND GR_STATE_FCALSTATE_MASK = GR_STATE_GENERATED \<and> 0x44 AND GR_STATE_FCALPASS \<noteq> 0)
   \<and> (GR_STATE_FCALPASS = push_bit 6 1 \<and> (6::nat) < 8
        \<and> (0x44 AND GR_STATE_FCALPASS \<noteq> 0) = (0x44 AND GR_STATE_FCALPASS = GR_STATE_FCALPASS))"
proof -
  have w: "0 \<le> fst (write_command 0x0123 GR_FCALCMD_GENERATE passing)"
    by code_simp
  have a: "fst (answer_to_command 0x0123 GR_FCALCMD_GENERATE passing) = Inr 0x44"
    by code_simp
  from sequencer_checks_phase_and_flag [OF w a, of GR_STATE_GENERATED GR_STATE_FCALPASS] w a
  show ?thesis
    by (simp add: GR_STATE_FCALPASS_def)
qed

text \<open>
  C3 as stated fails for a mask of more than one bit: the state \<open>0x44\<close> (Generated,
  fcalPass) has not all bits of the mask fcalPass and sequenceDone set, and the
  sequencer succeeds.
\<close>

theorem any_flag_of_the_mask_suffices:
  "0 \<le> fst (write_command 0x0123 GR_FCALCMD_GENERATE passing)
   \<and> fst (answer_to_command 0x0123 GR_FCALCMD_GENERATE passing) = Inr 0x44
   \<and> 0x44 AND GR_STATE_FCALSTATE_MASK = GR_STATE_GENERATED
   \<and> 0x44 AND (GR_STATE_FCALPASS OR GR_STATE_FCALSEQDONE)
       \<noteq> GR_STATE_FCALPASS OR GR_STATE_FCALSEQDONE
   \<and> fst (mxt_gr_run_command 0x0123 GR_FCALCMD_GENERATE GR_STATE_GENERATED
            (GR_STATE_FCALPASS OR GR_STATE_FCALSEQDONE) passing) = 0"
  by code_simp

text \<open>
  C6. Whenever the write of the Generate command succeeded and the poll that follows
  it ended on reading a calibration-object message \<open>m\<close>, at once or after any number
  of sleeps and of other messages, whose state byte has the phase bits of Generated
  with fcalFail set and fcalPass clear: no message read before \<open>m\<close> was of the
  calibration object, the poller returns that state, and the Generate step fails,
  the sequencer returning -1 after printing that the state is not the correct one.
\<close>

theorem generate_fails_on_fcalfail:
  assumes "0 \<le> fst (write_command addr GR_FCALCMD_GENERATE w)"
    and "reads (snd (answer_to_command addr GR_FCALCMD_GENERATE w))
           = reads (snd (write_command addr GR_FCALCMD_GENERATE w)) @ pre @ [m]"
    and "is_calibration_message w m" and "2 \<le> length m"
    and "m ! 1 AND GR_STATE_FCALSTATE_MASK = GR_STATE_GENERATED"
    and "m ! 1 AND GR_STATE_FCALFAIL \<noteq> 0"
    and "m ! 1 AND GR_STATE_FCALPASS = 0"
  shows "(\<forall>p\<in>set pre. \<not> is_calibration_message w p)
     \<and> fst (answer_to_command addr GR_FCALCMD_GENERATE w) = Inr (m ! 1)
     \<and> fst (mxt_gr_run_command addr GR_FCALCMD_GENERATE GR_STATE_GENERATED GR_STATE_FCALPASS w)
         = - 1
     \<and> last (trace (snd (mxt_gr_run_command addr GR_FCALCMD_GENERATE
                           GR_STATE_GENERATED GR_STATE_FCALPASS w)))
         = Printf ''Failed to enter correct state\<newline>''"
proof -
  let ?w1 = "snd (write_command addr GR_FCALCMD_GENERATE w)"
  have rid: "report_id_to_type ?w1 = report_id_to_type w"
    by (simp add: write_command_effect)
  note c = is_calibration_message_cong [OF rid]
  obtain r w2 where a: "answer_to_command addr GR_FCALCMD_GENERATE w = (r, w2)"
    by (cases "answer_to_command addr GR_FCALCMD_GENERATE w") auto
  then have run: "gr_status_loop (clock ?w1) GR_TIMEOUT (stack ?w1) ?w1 = (r, w2)"
    by (simp add: answer_to_command_def mxt_gr_get_status_def time_def)
  note rd = gr_status_loop_reads [OF run]
  from assms(2) a have r2: "reads w2 = reads ?w1 @ pre @ [m]"
    by simp
  have "r = Inr (m ! 1) \<and> (\<forall>p\<in>set pre. \<not> is_calibration_message w p)"
  proof (cases r)
    case (Inl x)
    with rd obtain rs where "reads w2 = reads ?w1 @ rs"
      "\<forall>p\<in>set rs. \<not> is_calibration_message ?w1 p"
      by auto
    with r2 have "\<not> is_calibration_message ?w1 m"
      by auto
    with assms(3) c show ?thesis
      by simp
  next
    case (Inr state)
    with rd obtain pre' m' where "reads w2 = reads ?w1 @ pre' @ [m']"
      "\<forall>p\<in>set pre'. \<not> is_calibration_message ?w1 p"
      "2 \<le> length m' \<longrightarrow> state = m' ! 1"
      by auto
    with r2 have "m' = m" "pre' = pre"
      by simp_all
    with \<open>2 \<le> length m' \<longrightarrow> state = m' ! 1\<close>
      \<open>\<forall>p\<in>set pre'. \<not> is_calibration_message ?w1 p\<close> assms(4) Inr c
    show ?thesis
      by simp
  qed
  then have first: "\<forall>p\<in>set pre. \<not> is_calibration_message w p"
    and a': "answer_to_command addr GR_FCALCMD_GENERATE w = (Inr (m ! 1), w2)"
    using a by simp_all
  from assms(1) have ok: "\<not> fst (write_command addr GR_FCALCMD_GENERATE w) < 0"
    by simp
  show ?thesis
    using assms(5,7) first by (simp add: mxt_gr_run_command_stages ok a')
qed

theorem generate_fails_on_fcalfail_witness:
  "0 \<le> fst (write_command 0x0123 GR_FCALCMD_GENERATE slow_rejecting)
   \<and> reads (snd (answer_to_command 0x0123 GR_FCALCMD_GENERATE slow_rejecting))
       = reads (snd (write_command 0x0123 GR_FCALCMD_GENERATE slow_rejecting))
         @ [[9, 9], [3, 0x10]] @ [[5, 0x84]]
   \<and> is_calibration_message slow_rejecting [5, 0x84]
   \<and> [5, 0x84 :: u8] ! 1 AND GR_STATE_FCALSTATE_MASK = GR_STATE_GENERATED
   \<and> [5, 0x84 :: u8] ! 1 AND GR_STATE_FCALFAIL \<noteq> 0
   \<and> [5, 0x84 :: u8] ! 1 AND GR_STATE_FCALPASS = 0
   \<and> queue (snd (write_command 0x0123 GR_FCALCMD_GENERATE slow_rejecting)) = [[9, 9]]
   \<and> clock (snd (answer_to_command 0x0123 GR_FCALCMD_GENERATE slow_rejecting)) = 3
   \<and> list_all (\<lambda>p. \<not> is_calibration_message slow_rejecting p) [[9, 9], [3, 0x10]]
   \<and> fst (answer_to_command 0x0123 GR_FCALCMD_GENERATE slow_rejecting) = Inr 0x84
   \<and> fst (mxt_gr_run_command 0x0123 GR_FCALCMD_GENERATE GR_STATE_GENERATED GR_STATE_FCALPASS
            slow_rejecting) = - 1
   \<and> last (trace (snd (mxt_gr_run_command 0x0123 GR_FCALCMD_GENERATE
                         GR_STATE_GENERATED GR_STATE_FCALPASS slow_rejecting)))
       = Printf ''Failed to enter correct state\<newline>''"
proof -
  have h1: "0 \<le> fst (write_command 0x0123 GR_FCALCMD_GENERATE slow_rejecting)"
    by code_simp
  have h2: "reads (snd (answer_to_command 0x0123 GR_FCALCMD_GENERATE slow_rejecting))
       = reads (snd (write_command 0x0123 GR_FCALCMD_GENERATE slow_rejecting))
         @ [[9, 9], [3, 0x10]] @ [[5, 0x84]]"
    by code_simp
  have h3: "is_calibration_message slow_rejecting [5, 0x84]"
    by code_simp
  have h5: "[5, 0x84 :: u8] ! 1 AND GR_STATE_FCALSTATE_MASK = GR_STATE_GENERATED"
    by code_simp
  have h6: "[5, 0x84 :: u8] ! 1 AND GR_STATE_FCALFAIL \<noteq> 0"
    by code_simp
  have h7: "[5, 0x84 :: u8] ! 1 AND GR_STATE_FCALPASS = 0"
    by code_simp
  have q: "queue (snd (write_command 0x0123 GR_FCALCMD_GENERATE slow_rejecting)) = [[9, 9]]"
    by code_simp
  have t: "clock (snd (answer_to_command 0x0123 GR_FCALCMD_GENERATE slow_rejecting)) = 3"
    by code_simp
  from generate_fails_on_fcalfail [OF h1 h2 h3 _ h5 h6 h7] h1 h2 h3 h5 h6 h7 q t
  show ?thesis
    by (simp add: list_all_iff)
qed

subsection \<open>The procedure\<close>

lemma mxt_msg_reset_effect [simp]:
  "fst (mxt_msg_reset w) = reset_ret w"
  "queue (snd (mxt_msg_reset w)) = []"
  "write_rets (snd (mxt_msg_reset w)) = write_rets w"
  "on_write (snd (mxt_msg_reset w)) = on_write w"
  "report_id_to_type (snd (mxt_msg_reset w)) = report_id_to_type w"
  "object_address (snd (mxt_msg_reset w)) = object_address w"
  "OBJECT_NOT_FOUND (snd (mxt_msg_reset w)) = OBJECT_NOT_FOUND w"
  "register_writes (snd (mxt_msg_reset w)) = register_writes w"
  "trace (snd (mxt_msg_reset w)) = trace w @ [MsgReset]"
  by (simp_all add: mxt_msg_reset_def register_writes_def emit_def)

lemma get_object_address_reset [simp]:
  "get_object_address t i (snd (mxt_msg_reset w)) = get_object_address t i w"
  by (simp add: get_object_address_def)

lemma mxt_store_golden_refs_stages:
  "mxt_store_golden_refs w =
     (if reset_ret w < 0 then (reset_ret w, snd (mxt_msg_reset w))
      else if get_object_address SPT_GOLDENREFERENCES_T66 0 w = OBJECT_NOT_FOUND w
        then (- 1, snd (mxt_msg_reset w))
      else if fst (prime_phase w) < 0 then prime_phase w
      else if fst (generate_phase w) < 0 then generate_phase w
      else if fst (store_phase w) < 0 then store_phase w
      else (0, printf ''Done\<newline>'' (snd (store_phase w))))"
  by (simp add: mxt_store_golden_refs_def prime_phase_def generate_phase_def store_phase_def
        Let_def case_prod_beta)

lemma command_bytes:
  "GR_FCALCMD_PRIME OR (GR_ENABLE OR GR_RPTEN) = 0x07"
  "GR_FCALCMD_GENERATE OR (GR_ENABLE OR GR_RPTEN) = 0x0B"
  "GR_FCALCMD_STORE OR (GR_ENABLE OR GR_RPTEN) = 0x0F"
  by (simp_all add: GR_FCALCMD_PRIME_def GR_FCALCMD_GENERATE_def GR_FCALCMD_STORE_def
        GR_ENABLE_def GR_RPTEN_def)

lemma phase_writes:
  "register_writes (snd (prime_phase w))
     = register_writes w @ [(get_object_address SPT_GOLDENREFERENCES_T66 0 w, [0x07])]"
  "register_writes (snd (generate_phase w))
     = register_writes (snd (prime_phase w))
       @ [(get_object_address SPT_GOLDENREFERENCES_T66 0 w, [0x0B])]"
  "register_writes (snd (store_phase w))
     = register_writes (snd (generate_phase w))
       @ [(get_object_address SPT_GOLDENREFERENCES_T66 0 w, [0x0F])]"
  by (simp_all add: prime_phase_def generate_phase_def store_phase_def Let_def
        run_command_writes command_bytes)

text \<open>
  C9. If the address of the calibration object resolves to \<^verbatim>\<open>OBJECT_NOT_FOUND\<close>, the
  procedure fails with a negative result and issues no register write: all it has
  done to the outside is the reset of the message state.
\<close>

theorem not_found_issues_no_write:
  assumes "get_object_address SPT_GOLDENREFERENCES_T66 0 w = OBJECT_NOT_FOUND w"
  shows "fst (mxt_store_golden_refs w) < 0
     \<and> register_writes (snd (mxt_store_golden_refs w)) = register_writes w
     \<and> trace (snd (mxt_store_golden_refs w)) = trace w @ [MsgReset]"
  using assms by (simp add: mxt_store_golden_refs_stages mxt_msg_reset_def [of w]
        register_writes_def emit_def)

theorem not_found_issues_no_write_witness:
  "get_object_address SPT_GOLDENREFERENCES_T66 0 absent = OBJECT_NOT_FOUND absent
   \<and> fst (mxt_store_golden_refs absent) < 0
   \<and> register_writes (snd (mxt_store_golden_refs absent)) = register_writes absent
   \<and> trace (snd (mxt_store_golden_refs absent)) = trace absent @ [MsgReset]"
proof -
  have h: "get_object_address SPT_GOLDENREFERENCES_T66 0 absent = OBJECT_NOT_FOUND absent"
    by (simp add: get_object_address_def absent_def bench_def)
  from not_found_issues_no_write [OF h] h show ?thesis
    by simp
qed

text \<open>
  C5. Once the messages are reset and the object is found, a step that fails ends
  the procedure with that step's negative result and in that step's world, so
  nothing is done after it: when Prime fails only the Prime command has been
  written, when Generate fails only Prime and Generate (Store is never written),
  and the procedure returns 0 only when all three steps succeed.
\<close>

theorem first_failure_ends_the_procedure:
  assumes "0 \<le> reset_ret w"
    and "get_object_address SPT_GOLDENREFERENCES_T66 0 w \<noteq> OBJECT_NOT_FOUND w"
    and "addr = get_object_address SPT_GOLDENREFERENCES_T66 0 w"
  shows "(fst (prime_phase w) < 0 \<longrightarrow>
            mxt_store_golden_refs w = prime_phase w
            \<and> register_writes (snd (mxt_store_golden_refs w))
                = register_writes w @ [(addr, [0x07])])
     \<and> (0 \<le> fst (prime_phase w) \<and> fst (generate_phase w) < 0 \<longrightarrow>
            mxt_store_golden_refs w = generate_phase w
            \<and> register_writes (snd (mxt_store_golden_refs w))
                = register_writes w @ [(addr, [0x07]), (addr, [0x0B])])
     \<and> (0 \<le> fst (prime_phase w) \<and> 0 \<le> fst (generate_phase w) \<and> fst (store_phase w) < 0 \<longrightarrow>
            mxt_store_golden_refs w = store_phase w
            \<and> register_writes (snd (mxt_store_golden_refs w))
                = register_writes w @ [(addr, [0x07]), (addr, [0x0B]), (addr, [0x0F])])
     \<and> (fst (mxt_store_golden_refs w) = 0) =
         (0 \<le> fst (prime_phase w) \<and> 0 \<le> fst (generate_phase w) \<and> 0 \<le> fst (store_phase w))"
  using assms by (auto simp: mxt_store_golden_refs_stages phase_writes)

theorem first_failure_ends_the_procedure_witness:
  "0 \<le> reset_ret spec_failure_scenario
   \<and> get_object_address SPT_GOLDENREFERENCES_T66 0 spec_failure_scenario
       \<noteq> OBJECT_NOT_FOUND spec_failure_scenario
   \<and> (0x0123 :: u16) = get_object_address SPT_GOLDENREFERENCES_T66 0 spec_failure_scenario
   \<and> 0 \<le> fst (prime_phase spec_failure_scenario)
   \<and> fst (generate_phase spec_failure_scenario) < 0
   \<and> mxt_store_golden_refs spec_failure_scenario = generate_phase spec_failure_scenario
   \<and> register_writes (snd (mxt_store_golden_refs spec_failure_scenario))
       = register_writes spec_failure_scenario @ [(0x0123, [0x07]), (0x0123, [0x0B])]
   \<and> fst (mxt_store_golden_refs spec_failure_scenario) \<noteq> 0"
proof -
  have h1: "0 \<le> reset_ret spec_failure_scenario"
    by code_simp
  have h2: "get_object_address SPT_GOLDENREFERENCES_T66 0 spec_failure_scenario
       \<noteq> OBJECT_NOT_FOUND spec_failure_scenario"
    by code_simp
  have h3: "(0x0123 :: u16) = get_object_address SPT_GOLDENREFERENCES_T66 0 spec_failure_scenario"
    by code_simp
  have p: "0 \<le> fst (prime_phase spec_failure_scenario)"
    by code_simp
  have g: "fst (generate_phase spec_failure_scenario) < 0"
    by code_simp
  from first_failure_ends_the_procedure [OF h1 h2 h3] p g
  have r: "mxt_store_golden_refs spec_failure_scenario = generate_phase spec_failure_scenario"
    "register_writes (snd (mxt_store_golden_refs spec_failure_scenario))
       = register_writes spec_failure_scenario @ [(0x0123, [0x07]), (0x0123, [0x0B])]"
    by blast+
  from r(1) g have "fst (mxt_store_golden_refs spec_failure_scenario) \<noteq> 0"
    by simp
  with h1 h2 h3 p g r show ?thesis
    by (intro conjI)
qed

text \<open>A sequencer run whose command the device answers with one T66 message of a
  state that passes the check.\<close>

lemma run_command_answered:
  assumes "queue w = []" and "write_rets w = []"
    and "on_write w addr [cmd OR (GR_ENABLE OR GR_RPTEN)] = [[rid, state]]"
    and "report_id_to_type w rid = SPT_GOLDENREFERENCES_T66"
    and "state AND GR_STATE_FCALSTATE_MASK = wanted_fcal_state"
    and "state AND wanted_statebit \<noteq> 0"
  shows "fst (mxt_gr_run_command addr cmd wanted_fcal_state wanted_statebit w) = 0"
    and "queue (snd (mxt_gr_run_command addr cmd wanted_fcal_state wanted_statebit w)) = []"
    and "write_rets (snd (mxt_gr_run_command addr cmd wanted_fcal_state wanted_statebit w)) = []"
    and "on_write (snd (mxt_gr_run_command addr cmd wanted_fcal_state wanted_statebit w))
           = on_write w"
    and "report_id_to_type (snd (mxt_gr_run_command addr cmd wanted_fcal_state wanted_statebit w))
           = report_id_to_type w"
proof -
  let ?w1 = "snd (write_command addr cmd w)"
  have ok: "fst (write_command addr cmd w) = 0"
    using assms(2) by (simp add: write_command_effect)
  have q1: "queue ?w1 = [] @ [rid, state] # []"
    using assms(1,3) ok by (simp add: write_command_effect)
  have rid: "report_id_to_type ?w1 = report_id_to_type w"
    by (simp add: write_command_effect)
  have "\<exists>w'. mxt_gr_get_status GR_TIMEOUT ?w1 = (Inr ([rid, state] ! 1), w') \<and> queue w' = []"
  proof (rule mxt_gr_get_status_finds [where pre = "[]"])
    show "queue ?w1 = [] @ [rid, state] # []" by fact
    show "\<forall>p\<in>set []. \<not> is_calibration_message ?w1 p" by simp
    show "is_calibration_message ?w1 [rid, state]"
      using assms(4) by (simp add: is_calibration_message_def rid)
    show "2 \<le> length [rid, state]" by simp
    show "length (queue ?w1) < 65536" using q1 by simp
    show "0 \<le> GR_TIMEOUT" by (simp add: GR_TIMEOUT_def)
  qed
  then obtain w2 where a: "answer_to_command addr cmd w = (Inr state, w2)"
    and q2: "queue w2 = []"
    by (auto simp: answer_to_command_def)
  have run: "mxt_gr_run_command addr cmd wanted_fcal_state wanted_statebit w = (0, w2)"
    using ok a assms(5,6) by (simp add: mxt_gr_run_command_stages)
  from run show "fst (mxt_gr_run_command addr cmd wanted_fcal_state wanted_statebit w) = 0"
    by simp
  from run q2 show "queue (snd (mxt_gr_run_command addr cmd wanted_fcal_state wanted_statebit w)) = []"
    by simp
  from run answer_to_command_frame(4) [OF a] assms(2)
  show "write_rets (snd (mxt_gr_run_command addr cmd wanted_fcal_state wanted_statebit w)) = []"
    by simp
  from run answer_to_command_frame(2) [OF a]
  show "on_write (snd (mxt_gr_run_command addr cmd wanted_fcal_state wanted_statebit w))
           = on_write w"
    by simp
  from run answer_to_command_frame(3) [OF a]
  show "report_id_to_type (snd (mxt_gr_run_command addr cmd wanted_fcal_state wanted_statebit w))
           = report_id_to_type w"
    by simp
qed

text \<open>
  C1, as amended. On a device that answers the Prime command \<open>0x07\<close> with the
  status byte \<open>0x02\<close>, the Generate command \<open>0x0B\<close> with \<open>0x44\<close> and the Store
  command \<open>0x0F\<close> with \<open>0x20\<close>, each step succeeds, exactly these three commands
  are written in this order, and the procedure returns 0 after printing Done.
\<close>

theorem calibration_scenario_succeeds:
  assumes "0 \<le> reset_ret w"
    and "get_object_address SPT_GOLDENREFERENCES_T66 0 w = addr"
    and "addr \<noteq> OBJECT_NOT_FOUND w"
    and "write_rets w = []"
    and "report_id_to_type w rid = SPT_GOLDENREFERENCES_T66"
    and "on_write w addr [0x07] = [[rid, 0x02]]"
    and "on_write w addr [0x0B] = [[rid, 0x44]]"
    and "on_write w addr [0x0F] = [[rid, 0x20]]"
  shows "fst (prime_phase w) = 0 \<and> fst (generate_phase w) = 0 \<and> fst (store_phase w) = 0
     \<and> fst (mxt_store_golden_refs w) = 0
     \<and> register_writes (snd (mxt_store_golden_refs w))
         = register_writes w @ [(addr, [0x07]), (addr, [0x0B]), (addr, [0x0F])]
     \<and> last (trace (snd (mxt_store_golden_refs w))) = Printf ''Done\<newline>''"
proof -
  let ?w1 = "printf ''Priming\<newline>'' (snd (mxt_msg_reset w))"
  have primed: "(0x02 :: u8) AND GR_STATE_FCALSTATE_MASK = GR_STATE_PRIMED"
    "(0x02 :: u8) AND GR_STATE_PRIMED \<noteq> 0"
    by (simp_all add: GR_STATE_FCALSTATE_MASK_def GR_STATE_PRIMED_def GR_STATE_GENERATED_def)
  have generated: "(0x44 :: u8) AND GR_STATE_FCALSTATE_MASK = GR_STATE_GENERATED"
    "(0x44 :: u8) AND GR_STATE_FCALPASS \<noteq> 0"
    by (simp_all add: GR_STATE_FCALSTATE_MASK_def GR_STATE_PRIMED_def GR_STATE_GENERATED_def
          GR_STATE_FCALPASS_def)
  have stored: "(0x20 :: u8) AND GR_STATE_FCALSTATE_MASK = GR_STATE_IDLE"
    "(0x20 :: u8) AND GR_STATE_FCALSEQDONE \<noteq> 0"
    by (simp_all add: GR_STATE_FCALSTATE_MASK_def GR_STATE_PRIMED_def GR_STATE_GENERATED_def
          GR_STATE_IDLE_def GR_STATE_FCALSEQDONE_def)
  have pp: "prime_phase w
      = mxt_gr_run_command addr GR_FCALCMD_PRIME GR_STATE_PRIMED GR_STATE_PRIMED ?w1"
    using assms(2) by (simp add: prime_phase_def Let_def)
  note p = run_command_answered [of ?w1 addr GR_FCALCMD_PRIME rid "0x02"
      GR_STATE_PRIMED GR_STATE_PRIMED, folded pp]
  have p1: "fst (prime_phase w) = 0" "queue (snd (prime_phase w)) = []"
    "write_rets (snd (prime_phase w)) = []" "on_write (snd (prime_phase w)) = on_write w"
    "report_id_to_type (snd (prime_phase w)) = report_id_to_type w"
    using assms(4,5,6) primed by (simp_all add: p command_bytes)
  let ?w2 = "printf ''Generating\<newline>'' (snd (prime_phase w))"
  have gp: "generate_phase w
      = mxt_gr_run_command addr GR_FCALCMD_GENERATE GR_STATE_GENERATED GR_STATE_FCALPASS ?w2"
    using assms(2) by (simp add: generate_phase_def)
  note g = run_command_answered [of ?w2 addr GR_FCALCMD_GENERATE rid "0x44"
      GR_STATE_GENERATED GR_STATE_FCALPASS, folded gp]
  have g1: "fst (generate_phase w) = 0" "queue (snd (generate_phase w)) = []"
    "write_rets (snd (generate_phase w)) = []" "on_write (snd (generate_phase w)) = on_write w"
    "report_id_to_type (snd (generate_phase w)) = report_id_to_type w"
    using assms(5,7) p1 generated by (simp_all add: g command_bytes)
  let ?w3 = "printf ''Storing\<newline>'' (snd (generate_phase w))"
  have sp: "store_phase w
      = mxt_gr_run_command addr GR_FCALCMD_STORE GR_STATE_IDLE GR_STATE_FCALSEQDONE ?w3"
    using assms(2) by (simp add: store_phase_def)
  note s = run_command_answered [of ?w3 addr GR_FCALCMD_STORE rid "0x20"
      GR_STATE_IDLE GR_STATE_FCALSEQDONE, folded sp]
  have s1: "fst (store_phase w) = 0"
    using assms(5,8) g1 stored by (simp_all add: s command_bytes)
  from assms(1,2,3) p1(1) g1(1) s1 show ?thesis
    by (simp add: mxt_store_golden_refs_stages phase_writes)
qed

theorem calibration_scenario_succeeds_witness:
  "0 \<le> reset_ret passing
   \<and> get_object_address SPT_GOLDENREFERENCES_T66 0 passing = 0x0123
   \<and> 0x0123 \<noteq> OBJECT_NOT_FOUND passing
   \<and> write_rets passing = []
   \<and> report_id_to_type passing 5 = SPT_GOLDENREFERENCES_T66
   \<and> on_write passing 0x0123 [0x07] = [[5, 0x02]]
   \<and> on_write passing 0x0123 [0x0B] = [[5, 0x44]]
   \<and> on_write passing 0x0123 [0x0F] = [[5, 0x20]]
   \<and> fst (prime_phase passing) = 0 \<and> fst (generate_phase passing) = 0
   \<and> fst (store_phase passing) = 0
   \<and> fst (mxt_store_golden_refs passing) = 0
   \<and> register_writes (snd (mxt_store_golden_refs passing))
       = register_writes passing @ [(0x0123, [0x07]), (0x0123, [0x0B]), (0x0123, [0x0F])]
   \<and> last (trace (snd (mxt_store_golden_refs passing))) = Printf ''Done\<newline>''"
proof -
  have h: "0 \<le> reset_ret passing"
    "get_object_address SPT_GOLDENREFERENCES_T66 0 passing = 0x0123"
    "0x0123 \<noteq> OBJECT_NOT_FOUND passing"
    "write_rets passing = []"
    "report_id_to_type passing 5 = SPT_GOLDENREFERENCES_T66"
    "on_write passing 0x0123 [0x07] = [[5, 0x02]]"
    "on_write passing 0x0123 [0x0B] = [[5, 0x44]]"
    "on_write passing 0x0123 [0x0F] = [[5, 0x20]]"
    by code_simp+
  from calibration_scenario_succeeds [OF h] h show ?thesis
    by simp
qed

text \<open>
  C1 as stated fails: the status byte \<open>0x42\<close> has bit 1 set, not bit 2, so its
  phase is Primed, not Generated. Answered with it, the Generate step fails, the
  Store command is never written and the procedure returns -1.
\<close>

theorem generate_fails_on_0x42:
  "0 \<le> reset_ret spec_scenario
   \<and> on_write spec_scenario 0x0123 [0x07] = [[5, 0x02]]
   \<and> on_write spec_scenario 0x0123 [0x0B] = [[5, 0x42]]
   \<and> on_write spec_scenario 0x0123 [0x0F] = [[5, 0x20]]
   \<and> fst (prime_phase spec_scenario) = 0
   \<and> fst (answer_to_command 0x0123 GR_FCALCMD_GENERATE
             (printf ''Generating\<newline>'' (snd (prime_phase spec_scenario)))) = Inr 0x42
   \<and> 0x42 AND GR_STATE_FCALSTATE_MASK = GR_STATE_PRIMED
   \<and> fst (generate_phase spec_scenario) = - 1
   \<and> fst (mxt_store_golden_refs spec_scenario) = - 1
   \<and> register_writes (snd (mxt_store_golden_refs spec_scenario))
       = [(0x0123, [0x07]), (0x0123, [0x0B])]"
  by code_simp

end
